theory Spec2Isabelle
  imports Main
begin

section \<open>Data model\<close>

text \<open>
  The repository holds two versions of one Express server: \<^verbatim>\<open>server.js\<close> (one
  endpoint, \<^verbatim>\<open>/api/gemini-proxy\<close>, limiter \<^verbatim>\<open>max: 5\<close>) and a later file
  (\<^verbatim>\<open>unnamed/part_000\<close>: the same endpoint behind a shared middleware, a second
  endpoint \<^verbatim>\<open>/api/search-proxy\<close>, limiter \<^verbatim>\<open>max: 10\<close>). Both are embedded.
  Names of the later file are kept as they are; those of \<^verbatim>\<open>server.js\<close> carry the
  suffix \<open>_server_js\<close>.

  JSON payloads are opaque to the server: a parsed JSON value is a \<open>json\<close>. A request
  body is the parsed object \<^verbatim>\<open>req.body\<close>; a field that is absent (or \<^verbatim>\<open>null\<close>) is
  \<open>None\<close>. As in the documented interface, \<^verbatim>\<open>userId\<close> and \<^verbatim>\<open>query\<close> are strings when
  present, so \<^verbatim>\<open>!userId\<close> holds exactly for \<open>None\<close> and \<open>Some []\<close>.
\<close>

type_synonym json = string

record search_payload =
  query :: "string option"
  startIndex :: "nat option"

record request_body =
  userId :: "string option"
  geminiPayload :: "json option"
  searchPayload :: "search_payload option"

text \<open>A response: \<^verbatim>\<open>res.status(n).json({error: msg})\<close> or \<^verbatim>\<open>res.status(n).json(data)\<close>.\<close>

datatype res_json = ErrorJson string | DataJson json

record response =
  status :: nat
  payload :: res_json

text \<open>\<^verbatim>\<open>process.env\<close>: a variable that is not set reads as \<^verbatim>\<open>undefined\<close>.\<close>

record env =
  GEMINI_API_KEY :: "string option"
  SEARCH_API_KEY :: "string option"
  CX_ID :: "string option"

definition FREE_TRIAL_LIMIT :: nat where
  "FREE_TRIAL_LIMIT = 20"

subsection \<open>The object \<^verbatim>\<open>usageTracker\<close>\<close>

text \<open>
  \<^verbatim>\<open>const usageTracker = {}\<close> is a plain object. Its own properties are a map from
  property names to values; a name it does not own is looked up in \<^verbatim>\<open>Object.prototype\<close>.
  The values the handlers ever read or store are numbers (counts), the inherited
  members of \<^verbatim>\<open>Object.prototype\<close> (functions, and the prototype itself under
  \<^verbatim>\<open>__proto__\<close>), and the strings that \<^verbatim>\<open>+ 1\<close> makes of those. Such a string
  holds brackets, so it converts to \<^verbatim>\<open>NaN\<close> and every comparison with a number is false.
\<close>

datatype jsval = Number nat | Text string | Inherited string

definition Object_prototype :: "string list" where
  "Object_prototype =
     [''constructor'', ''__defineGetter__'', ''__defineSetter__'', ''hasOwnProperty'',
      ''__lookupGetter__'', ''__lookupSetter__'', ''isPrototypeOf'',
      ''propertyIsEnumerable'', ''toString'', ''valueOf'', ''__proto__'',
      ''toLocaleString'']"

definition get_prop :: "(string \<rightharpoonup> jsval) \<Rightarrow> string \<Rightarrow> jsval option" where
  \<comment> \<open>\<^verbatim>\<open>obj[k]\<close>; \<open>None\<close> is \<^verbatim>\<open>undefined\<close>\<close>
  "get_prop obj k =
     (case obj k of
        Some v \<Rightarrow> Some v
      | None \<Rightarrow> if k \<in> set Object_prototype then Some (Inherited k) else None)"

definition set_prop :: "(string \<rightharpoonup> jsval) \<Rightarrow> string \<Rightarrow> jsval \<Rightarrow> (string \<rightharpoonup> jsval)" where
  \<comment> \<open>\<^verbatim>\<open>obj[k] = v\<close> for a primitive \<open>v\<close>: the setter of \<^verbatim>\<open>__proto__\<close> ignores it\<close>
  "set_prop obj k v = (if k = ''__proto__'' then obj else obj(k \<mapsto> v))"

definition truthy :: "jsval \<Rightarrow> bool" where
  "truthy v = (case v of Number n \<Rightarrow> n \<noteq> 0 | Text s \<Rightarrow> s \<noteq> [] | Inherited k \<Rightarrow> True)"

definition or_zero :: "jsval option \<Rightarrow> jsval" where
  \<comment> \<open>\<^verbatim>\<open>x || 0\<close>\<close>
  "or_zero x = (case x of None \<Rightarrow> Number 0 | Some v \<Rightarrow> if truthy v then v else Number 0)"

definition ge_number :: "jsval \<Rightarrow> nat \<Rightarrow> bool" where
  \<comment> \<open>\<^verbatim>\<open>v >= n\<close>\<close>
  "ge_number v n = (case v of Number m \<Rightarrow> n \<le> m | Text s \<Rightarrow> False | Inherited k \<Rightarrow> False)"

definition to_primitive :: "string \<Rightarrow> string" where
  \<comment> \<open>the text of the member of \<^verbatim>\<open>Object.prototype\<close> named \<open>k\<close>\<close>
  "to_primitive k =
     (if k = ''__proto__'' then ''[object Object]''
      else ''function '' @ (if k = ''constructor'' then ''Object'' else k)
           @ ''() { [native code] }'')"

definition plus_one :: "jsval \<Rightarrow> jsval" where
  \<comment> \<open>\<^verbatim>\<open>v + 1\<close>: addition on a number, concatenation otherwise\<close>
  "plus_one v =
     (case v of
        Number n \<Rightarrow> Number (n + 1)
      | Text s \<Rightarrow> Text (s @ ''1'')
      | Inherited k \<Rightarrow> Text (to_primitive k @ ''1''))"

subsection \<open>The rate limiter\<close>

text \<open>
  The options the two files pass to \<^verbatim>\<open>rateLimit\<close>. \<^verbatim>\<open>keyGenerator\<close> is
  \<^verbatim>\<open>req.body.userId\<close> in both, so a key is a \<open>string option\<close>: requests without a
  \<^verbatim>\<open>userId\<close> share the key \<open>None\<close>.
\<close>

record limiter_options =
  windowMs :: int
  max_hits :: nat
  message :: res_json
  standardHeaders :: bool
  legacyHeaders :: bool

definition apiLimiter_server_js :: limiter_options where
  "apiLimiter_server_js =
     \<lparr>windowMs = 1 * 60 * 1000, max_hits = 5,
      message = ErrorJson ''Too many requests, please try again after a minute.'',
      standardHeaders = True, legacyHeaders = False\<rparr>"

definition apiLimiter :: limiter_options where
  "apiLimiter =
     \<lparr>windowMs = 1 * 60 * 1000, max_hits = 10,
      message = ErrorJson ''Too many requests, please try again after a minute.'',
      standardHeaders = True, legacyHeaders = False\<rparr>"

record window_entry =
  windowStart :: int
  count :: nat

type_synonym rate_store = "string option \<rightharpoonup> window_entry"

text \<open>
  Modelled from the spec: the middleware that \<^verbatim>\<open>rateLimit(options)\<close> returns belongs to
  the package \<^verbatim>\<open>express-rate-limit\<close>, whose code is not in the repository. The
  window counter follows the spec's RateWindow: look the key's entry up; if there is
  none, or \<open>now - windowStart \<ge> windowDuration\<close>, start a new entry at \<open>now\<close> with count
  0; if the count has reached the maximum, refuse; otherwise count the request and
  admit it.
\<close>

definition rate_check ::
  "limiter_options \<Rightarrow> rate_store \<Rightarrow> string option \<Rightarrow> int \<Rightarrow> bool \<times> rate_store" where
  "rate_check opts store k now =
     (let e = (case store k of
                 None \<Rightarrow> \<lparr>windowStart = now, count = 0\<rparr>
               | Some e \<Rightarrow>
                   if now - windowStart e \<ge> windowMs opts
                   then \<lparr>windowStart = now, count = 0\<rparr> else e)
      in if count e \<ge> max_hits opts then (False, store(k \<mapsto> e))
         else (True, store(k \<mapsto> e\<lparr>count := count e + 1\<rparr>)))"

text \<open>
  Modelled from the spec: what the middleware of \<^verbatim>\<open>express-rate-limit\<close> answers is
  not in the repository either. By the spec a refused request gets HTTP 429 with the
  configured \<^verbatim>\<open>message\<close> as its body; an admitted one is passed on.
\<close>

definition rateLimit ::
  "limiter_options \<Rightarrow> rate_store \<Rightarrow> request_body \<Rightarrow> int \<Rightarrow> response option \<times> rate_store" where
  \<comment> \<open>\<open>None\<close>: the middleware calls \<^verbatim>\<open>next()\<close>\<close>
  "rateLimit opts store body now =
     (case rate_check opts store (userId body) now of
        (True, store') \<Rightarrow> (None, store')
      | (False, store') \<Rightarrow> (Some \<lparr>status = 429, payload = message opts\<rparr>, store'))"

section \<open>The server\<close>

text \<open>
  A handler runs without interruption up to \<^verbatim>\<open>await fetch(...)\<close>. There it either has
  answered already, or it waits for the upstream with the values it holds in local
  variables: \<^verbatim>\<open>userId\<close> and the \<^verbatim>\<open>userUsage\<close> it read before the call. While it waits,
  other requests are served. When the upstream call settles the handler runs to its end.
\<close>

datatype upstream = GenerateContent | CustomSearch

record upstream_call =
  target :: upstream
  api_key :: "string option"
  cx :: "string option"
  q :: string
  start :: nat
  body :: "json option"

record pending =
  p_userId :: string
  p_userUsage :: jsval
  p_call :: upstream_call

datatype outcome = Respond response | Await pending

text \<open>
  How the upstream call settles: \<^verbatim>\<open>fetch\<close> rejects (\<open>NetworkError\<close>, with the
  error's text), or it resolves with a status and a body, which \<^verbatim>\<open>apiResponse.json()\<close>
  parses (\<open>None\<close>: the body is not JSON and the parse throws).
\<close>

datatype upstream_result = NetworkError string | HttpResponse nat "json option"

definition ok :: "nat \<Rightarrow> bool" where
  \<comment> \<open>\<^verbatim>\<open>apiResponse.ok\<close>\<close>
  "ok st = (200 \<le> st \<and> st \<le> 299)"

record server =
  usageTracker :: "string \<rightharpoonup> jsval"
  hits :: rate_store
  inflight :: "pending list"

definition init :: server where
  "init = \<lparr>usageTracker = Map.empty, hits = Map.empty, inflight = []\<rparr>"

subsection \<open>Middleware and handlers of the later file\<close>

datatype auth = Reject response | Next string jsval

definition usageAndAuthMiddleware :: "(string \<rightharpoonup> jsval) \<Rightarrow> request_body \<Rightarrow> auth" where
  \<comment> \<open>\<open>Next u userUsage\<close>: \<^verbatim>\<open>req.userUsage = userUsage; next()\<close>\<close>
  "usageAndAuthMiddleware tracker req =
     (case userId req of
        None \<Rightarrow> Reject \<lparr>status = 400, payload = ErrorJson ''Missing user ID.''\<rparr>
      | Some u \<Rightarrow>
          if u = [] then Reject \<lparr>status = 400, payload = ErrorJson ''Missing user ID.''\<rparr>
          else
            let userUsage = or_zero (get_prop tracker u) in
            if ge_number userUsage FREE_TRIAL_LIMIT
            then Reject \<lparr>status = 429, payload = ErrorJson
              ''Free trial limit reached. Please add your own API key in the settings to continue.''\<rparr>
            else Next u userUsage)"

definition gemini_handler :: "env \<Rightarrow> request_body \<Rightarrow> string \<Rightarrow> jsval \<Rightarrow> outcome" where
  "gemini_handler e req u userUsage =
     Await \<lparr>p_userId = u, p_userUsage = userUsage,
            p_call = \<lparr>target = GenerateContent, api_key = GEMINI_API_KEY e, cx = None,
                      q = [], start = 0, body = geminiPayload req\<rparr>\<rparr>"

definition falsy :: "string option \<Rightarrow> bool" where
  \<comment> \<open>\<^verbatim>\<open>!x\<close> for a string that may be absent\<close>
  "falsy x = (case x of None \<Rightarrow> True | Some s \<Rightarrow> s = [])"

definition search_handler :: "env \<Rightarrow> request_body \<Rightarrow> string \<Rightarrow> jsval \<Rightarrow> outcome" where
  "search_handler e req u userUsage =
     (case searchPayload req of
        None \<Rightarrow> Respond \<lparr>status = 400, payload = ErrorJson ''Missing search query in request body''\<rparr>
      | Some sp \<Rightarrow>
          if falsy (query sp)
          then Respond \<lparr>status = 400, payload = ErrorJson ''Missing search query in request body''\<rparr>
          else if falsy (SEARCH_API_KEY e) \<or> falsy (CX_ID e)
          then Respond \<lparr>status = 500, payload = ErrorJson ''Server configuration error.''\<rparr>
          else Await \<lparr>p_userId = u, p_userUsage = userUsage,
                 p_call = \<lparr>target = CustomSearch, api_key = SEARCH_API_KEY e, cx = CX_ID e,
                           q = (case query sp of None \<Rightarrow> [] | Some s \<Rightarrow> s),
                           start = (case startIndex sp of None \<Rightarrow> 1 | Some n \<Rightarrow> if n = 0 then 1 else n),
                           body = None\<rparr>\<rparr>)"

definition route ::
  "limiter_options \<Rightarrow> (request_body \<Rightarrow> string \<Rightarrow> jsval \<Rightarrow> outcome) \<Rightarrow>
   server \<Rightarrow> request_body \<Rightarrow> int \<Rightarrow> outcome \<times> server" where
  \<comment> \<open>\<^verbatim>\<open>app.post(path, apiLimiter, usageAndAuthMiddleware, handler)\<close>\<close>
  "route opts handler s req now =
     (case rateLimit opts (hits s) req now of
        (Some r, h) \<Rightarrow> (Respond r, s\<lparr>hits := h\<rparr>)
      | (None, h) \<Rightarrow>
          (case usageAndAuthMiddleware (usageTracker s) req of
             Reject r \<Rightarrow> (Respond r, s\<lparr>hits := h\<rparr>)
           | Next u userUsage \<Rightarrow> (handler req u userUsage, s\<lparr>hits := h\<rparr>)))"

definition gemini_proxy :: "env \<Rightarrow> server \<Rightarrow> request_body \<Rightarrow> int \<Rightarrow> outcome \<times> server" where
  "gemini_proxy e = route apiLimiter (gemini_handler e)"

definition search_proxy :: "env \<Rightarrow> server \<Rightarrow> request_body \<Rightarrow> int \<Rightarrow> outcome \<times> server" where
  "search_proxy e = route apiLimiter (search_handler e)"

subsection \<open>The handler of \<^verbatim>\<open>server.js\<close>\<close>

definition gemini_proxy_server_js ::
  "env \<Rightarrow> server \<Rightarrow> request_body \<Rightarrow> int \<Rightarrow> outcome \<times> server" where
  "gemini_proxy_server_js e s req now =
     (case rateLimit apiLimiter_server_js (hits s) req now of
        (Some r, h) \<Rightarrow> (Respond r, s\<lparr>hits := h\<rparr>)
      | (None, h) \<Rightarrow>
          (case userId req of
             None \<Rightarrow> (Respond \<lparr>status = 400, payload = ErrorJson ''Missing user ID.''\<rparr>, s\<lparr>hits := h\<rparr>)
           | Some u \<Rightarrow>
               if u = []
               then (Respond \<lparr>status = 400, payload = ErrorJson ''Missing user ID.''\<rparr>, s\<lparr>hits := h\<rparr>)
               else
                 let userUsage = or_zero (get_prop (usageTracker s) u) in
                 if ge_number userUsage FREE_TRIAL_LIMIT
                 then (Respond \<lparr>status = 429, payload = ErrorJson
                   ''Free trial limit reached. Please add your own API key in the settings to continue.''\<rparr>,
                   s\<lparr>hits := h\<rparr>)
                 else (Await \<lparr>p_userId = u, p_userUsage = userUsage,
                         p_call = \<lparr>target = GenerateContent, api_key = GEMINI_API_KEY e,
                                   cx = None, q = [], start = 0, body = geminiPayload req\<rparr>\<rparr>,
                       s\<lparr>hits := h\<rparr>)))"

subsection \<open>After the upstream call\<close>

text \<open>
  The three handlers end with the same text (\<^verbatim>\<open>server.js\<close> lines 46-58, the later file
  lines 75-89 and 112-125): parse the body, then on \<^verbatim>\<open>apiResponse.ok\<close> store
  \<^verbatim>\<open>userUsage + 1\<close> and answer 200 with the data, otherwise relay status and data; the
  \<^verbatim>\<open>catch\<close> answers 500 with a fixed message. What the handlers write to the console
  is left out.
\<close>

definition settle :: "pending \<Rightarrow> upstream_result \<Rightarrow> server \<Rightarrow> response \<times> server" where
  "settle p res s =
     (case res of
        NetworkError cause \<Rightarrow>
          (\<lparr>status = 500, payload = ErrorJson ''An error occurred on the proxy server.''\<rparr>, s)
      | HttpResponse st parsed \<Rightarrow>
          (case parsed of
             None \<Rightarrow>
               (\<lparr>status = 500, payload = ErrorJson ''An error occurred on the proxy server.''\<rparr>, s)
           | Some data \<Rightarrow>
               if ok st
               then (\<lparr>status = 200, payload = DataJson data\<rparr>,
                     s\<lparr>usageTracker := set_prop (usageTracker s) (p_userId p) (plus_one (p_userUsage p))\<rparr>)
               else (\<lparr>status = st, payload = DataJson data\<rparr>, s)))"

subsection \<open>Runs of the server\<close>

text \<open>
  An event is a request arriving at a route at some time, or the upstream call of one
  of the waiting requests settling (the \<open>i\<close>-th of \<open>inflight\<close>). The routes of the later
  file are \<open>GeminiProxy\<close> and \<open>SearchProxy\<close>; \<^verbatim>\<open>server.js\<close> has a single route.
\<close>

datatype 'r event = Incoming 'r request_body int | Settled nat upstream_result

datatype trace_item = Answered response | Dispatched pending | Ignored

type_synonym 'r app = "'r \<Rightarrow> server \<Rightarrow> request_body \<Rightarrow> int \<Rightarrow> outcome \<times> server"

fun step :: "'r app \<Rightarrow> server \<Rightarrow> 'r event \<Rightarrow> trace_item \<times> server" where
  "step app s (Incoming r req now) =
     (case app r s req now of
        (Respond res, s') \<Rightarrow> (Answered res, s')
      | (Await p, s') \<Rightarrow> (Dispatched p, s'\<lparr>inflight := inflight s' @ [p]\<rparr>))"
| "step app s (Settled i res) =
     (if i < length (inflight s)
      then case settle (inflight s ! i) res (s\<lparr>inflight := take i (inflight s) @ drop (Suc i) (inflight s)\<rparr>) of
             (r, s') \<Rightarrow> (Answered r, s')
      else (Ignored, s))"

fun run :: "'r app \<Rightarrow> server \<Rightarrow> 'r event list \<Rightarrow> (trace_item \<times> server) list" where
  "run app s [] = []"
| "run app s (ev # evs) = (case step app s ev of (item, s') \<Rightarrow> (item, s') # run app s' evs)"

datatype route_name = GeminiProxy | SearchProxy

fun app_part_000 :: "env \<Rightarrow> route_name app" where
  "app_part_000 e GeminiProxy = gemini_proxy e"
| "app_part_000 e SearchProxy = search_proxy e"

definition app_server_js :: "env \<Rightarrow> unit app" where
  "app_server_js e r = gemini_proxy_server_js e"

fun exec :: "'r app \<Rightarrow> server \<Rightarrow> 'r event list \<Rightarrow> server" where
  \<comment> \<open>the state after a run\<close>
  "exec app s [] = s"
| "exec app s (ev # evs) = exec app (snd (step app s ev)) evs"

subsection \<open>Counting what a rate window lets through\<close>

text \<open>
  An entry of a run (the event, what the server did, the state after it) is a request
  of key \<open>k\<close> that was handed to the upstream and that the limiter counted in the window
  starting at \<open>w\<close>.
\<close>

definition dispatched_in_window ::
  "string option \<Rightarrow> int \<Rightarrow> 'r event \<times> trace_item \<times> server \<Rightarrow> bool" where
  "dispatched_in_window k w x =
     (case x of
        (Incoming r req now, Dispatched p, s') \<Rightarrow>
          userId req = k \<and> (case hits s' k of None \<Rightarrow> False | Some en \<Rightarrow> windowStart en = w)
      | _ \<Rightarrow> False)"

text \<open>
  How many requests of key \<open>k\<close> the limiter can still admit into the window starting
  at \<open>w\<close>: all of them while that window lies ahead, what is left of it while it is
  the current one, none once a later window has begun.
\<close>

definition budget :: "limiter_options \<Rightarrow> rate_store \<Rightarrow> string option \<Rightarrow> int \<Rightarrow> nat" where
  "budget opts store k w =
     (case store k of
        None \<Rightarrow> max_hits opts
      | Some en \<Rightarrow>
          if windowStart en < w then max_hits opts
          else if windowStart en = w then max_hits opts - count en
          else 0)"

text \<open>An application whose every route runs the limiter first, with options \<open>opts\<close>.\<close>

definition limited_by :: "limiter_options \<Rightarrow> 'r app \<Rightarrow> bool" where
  "limited_by opts app =
     (\<forall>r s req now.
        hits (snd (app r s req now)) = snd (rate_check opts (hits s) (userId req) now) \<and>
        ((\<exists>p. fst (app r s req now) = Await p) \<longrightarrow>
           fst (rate_check opts (hits s) (userId req) now)))"

text \<open>The times at which the requests of a run arrive.\<close>

fun arrivals :: "'r event list \<Rightarrow> int list" where
  "arrivals [] = []"
| "arrivals (Incoming r req now # evs) = now # arrivals evs"
| "arrivals (Settled i res # evs) = arrivals evs"

text \<open>
  An entry of a run is no request, or it is a request that arrived inside the window
  the limiter holds for its key afterwards: at or after the window's start and less
  than \<open>windowMs\<close> after it.
\<close>

definition in_its_window :: "limiter_options \<Rightarrow> 'r event \<times> trace_item \<times> server \<Rightarrow> bool" where
  "in_its_window opts x =
     (case x of
        (Incoming r req now, item, s') \<Rightarrow>
          (case hits s' (userId req) of
             None \<Rightarrow> False
           | Some en \<Rightarrow> windowStart en \<le> now \<and> now < windowStart en + windowMs opts)
      | _ \<Rightarrow> True)"

definition starts_before :: "rate_store \<Rightarrow> int \<Rightarrow> bool" where
  "starts_before store t = (\<forall>k en. store k = Some en \<longrightarrow> windowStart en \<le> t)"

text \<open>
  The fixed windows of one key, read off the arrival times of its requests alone, in
  the spec's words: the first request starts a window at its arrival time; a later
  request stays in the current window while less than the window duration \<open>W\<close> has
  passed since the window's start, and starts a new window at its own arrival time
  otherwise. \<open>windows W cur ts\<close> is the window start of each arrival in \<open>ts\<close>, given
  the current window's start \<open>cur\<close> (\<open>None\<close>: no window yet).
\<close>

fun windows :: "int \<Rightarrow> int option \<Rightarrow> int list \<Rightarrow> int list" where
  "windows W cur [] = []"
| "windows W cur (t # ts) =
     (let w = (case cur of None \<Rightarrow> t | Some c \<Rightarrow> if t - c \<ge> W then t else c)
      in w # windows W (Some w) ts)"

text \<open>The arrival times of the requests of key \<open>k\<close> in a run.\<close>

fun arrivals_of :: "string option \<Rightarrow> 'r event list \<Rightarrow> int list" where
  "arrivals_of k [] = []"
| "arrivals_of k (Incoming r req now # evs) =
     (if userId req = k then now # arrivals_of k evs else arrivals_of k evs)"
| "arrivals_of k (Settled i res # evs) = arrivals_of k evs"

text \<open>
  An entry of a run is a request of key \<open>k\<close> that arrived in the interval from \<open>w\<close> to
  \<open>w + W\<close> (the end excluded) and was handed to the upstream.
\<close>

definition dispatched_between ::
  "string option \<Rightarrow> int \<Rightarrow> int \<Rightarrow> 'r event \<times> trace_item \<times> server \<Rightarrow> bool" where
  "dispatched_between k w W x =
     (case x of
        (Incoming r req now, Dispatched p, s') \<Rightarrow> userId req = k \<and> w \<le> now \<and> now < w + W
      | _ \<Rightarrow> False)"

text \<open>For the proofs: the requests of a key, and the window start the limiter holds.\<close>

definition request_of_key :: "string option \<Rightarrow> 'r event \<times> trace_item \<times> server \<Rightarrow> bool" where
  "request_of_key k x = (case x of (Incoming r req now, item, s') \<Rightarrow> userId req = k | _ \<Rightarrow> False)"

definition window_label :: "string option \<Rightarrow> 'r event \<times> trace_item \<times> server \<Rightarrow> int option" where
  "window_label k x = map_option windowStart (hits (snd (snd x)) k)"

subsection \<open>A key whose quota is used up\<close>

text \<open>A request of user \<open>k\<close> is waiting for its upstream call.\<close>

definition waiting_for :: "string \<Rightarrow> server \<Rightarrow> bool" where
  "waiting_for k s = list_ex (\<lambda>p. p_userId p = k) (inflight s)"

text \<open>
  An entry of a run leaves the tracker's value for \<open>k\<close> at the number \<open>n\<close>, and if it is a
  request of user \<open>k\<close> it was answered with HTTP 429: with the quota message, or with the
  limiter's message.
\<close>

definition stays_exhausted ::
  "limiter_options \<Rightarrow> string \<Rightarrow> nat \<Rightarrow> 'r event \<times> trace_item \<times> server \<Rightarrow> bool" where
  "stays_exhausted opts k n x =
     (case x of
        (ev, item, s') \<Rightarrow>
          get_prop (usageTracker s') k = Some (Number n) \<and>
          (case ev of
             Incoming r req now \<Rightarrow>
               if userId req = Some k
               then item = Answered \<lparr>status = 429, payload = ErrorJson
                      ''Free trial limit reached. Please add your own API key in the settings to continue.''\<rparr>
                    \<or> item = Answered \<lparr>status = 429, payload = message opts\<rparr>
               else True
           | Settled i res \<Rightarrow> True))"

subsection \<open>Concrete inputs\<close>

definition example_env :: env where
  "example_env = \<lparr>GEMINI_API_KEY = Some ''g-key'', SEARCH_API_KEY = Some ''s-key'', CX_ID = Some ''cx''\<rparr>"

definition no_keys_env :: env where
  "no_keys_env = \<lparr>GEMINI_API_KEY = None, SEARCH_API_KEY = None, CX_ID = None\<rparr>"

definition request_of :: "string option \<Rightarrow> request_body" where
  \<comment> \<open>a body with a payload for either endpoint\<close>
  "request_of u =
     \<lparr>userId = u, geminiPayload = Some ''{}'',
      searchPayload = Some \<lparr>query = Some ''cats'', startIndex = None\<rparr>\<rparr>"

definition no_query_of :: "string option \<Rightarrow> request_body" where
  \<comment> \<open>a search request whose \<^verbatim>\<open>searchPayload\<close> has no \<^verbatim>\<open>query\<close>\<close>
  "no_query_of u =
     \<lparr>userId = u, geminiPayload = None,
      searchPayload = Some \<lparr>query = None, startIndex = None\<rparr>\<rparr>"

definition success :: upstream_result where
  "success = HttpResponse 200 (Some ''{}'')"

definition first_call :: pending where
  \<comment> \<open>what the first gemini request of user \<open>u1\<close> waits for\<close>
  "first_call =
     \<lparr>p_userId = ''u1'', p_userUsage = Number 0,
      p_call = \<lparr>target = GenerateContent, api_key = Some ''g-key'', cx = None, q = [],
                start = 0, body = Some ''{}''\<rparr>\<rparr>"

fun burst :: "'r \<Rightarrow> request_body \<Rightarrow> int \<Rightarrow> nat \<Rightarrow> 'r event list" where
  \<comment> \<open>\<open>n\<close> requests arriving one after the other at time \<open>t\<close>\<close>
  "burst r req t 0 = []"
| "burst r req t (Suc n) = Incoming r req t # burst r req t n"

fun served :: "'r \<Rightarrow> request_body \<Rightarrow> int \<Rightarrow> nat \<Rightarrow> 'r event list" where
  \<comment> \<open>\<open>n\<close> requests at time \<open>t\<close>, each answered by the upstream before the next arrives\<close>
  "served r req t 0 = []"
| "served r req t (Suc n) = Incoming r req t # Settled 0 success # served r req t n"

definition twenty_served :: "route_name event list" where
  \<comment> \<open>twenty requests of user \<open>u1\<close>, one at a time, in two windows of the later file\<close>
  "twenty_served =
     served GeminiProxy (request_of (Some ''u1'')) 0 10
     @ served SearchProxy (request_of (Some ''u1'')) 60000 10"

definition twenty_served_server_js :: "unit event list" where
  \<comment> \<open>the same in four windows of \<^verbatim>\<open>server.js\<close>\<close>
  "twenty_served_server_js =
     served () (request_of (Some ''u1'')) 0 5
     @ served () (request_of (Some ''u1'')) 60000 5
     @ served () (request_of (Some ''u1'')) 120000 5
     @ served () (request_of (Some ''u1'')) 180000 5"

definition reaching_limit :: "route_name event list" where
  \<comment> \<open>eighteen requests of user \<open>u1\<close> served one at a time in two windows; in the third
      window two arrive together, the second of them is served, one more arrives and is
      served, and the first of the two still waits for the upstream\<close>
  "reaching_limit =
     served GeminiProxy (request_of (Some ''u1'')) 0 10
     @ served GeminiProxy (request_of (Some ''u1'')) 60000 8
     @ [Incoming GeminiProxy (request_of (Some ''u1'')) 120000,
        Incoming GeminiProxy (request_of (Some ''u1'')) 120001,
        Settled 1 success,
        Incoming GeminiProxy (request_of (Some ''u1'')) 120002,
        Settled 1 success]"

definition six_in_ten_seconds :: "unit event list" where
  \<comment> \<open>\<^verbatim>\<open>server.js\<close>: six requests of user \<open>u2\<close> within ten seconds\<close>
  "six_in_ten_seconds =
     burst () (request_of (Some ''u2'')) 0 5 @ [Incoming () (request_of (Some ''u2'')) 10000]"

definition eleven_in_ten_seconds :: "route_name event list" where
  \<comment> \<open>the later file: eleven requests of user \<open>u2\<close> within ten seconds, on both routes\<close>
  "eleven_in_ten_seconds =
     burst GeminiProxy (request_of (Some ''u2'')) 0 5
     @ burst SearchProxy (request_of (Some ''u2'')) 5000 5
     @ [Incoming SearchProxy (request_of (Some ''u2'')) 10000]"

definition after_exhaustion :: "route_name event list" where
  \<comment> \<open>once \<open>u1\<close> has used the quota up: \<open>u1\<close> asks again, \<open>u2\<close> is served, \<open>u1\<close> asks again\<close>
  "after_exhaustion =
     [Incoming GeminiProxy (request_of (Some ''u1'')) 120000,
      Incoming SearchProxy (request_of (Some ''u2'')) 120001,
      Settled 0 success,
      Incoming SearchProxy (request_of (Some ''u1'')) 120002]"

section \<open>Auxiliary facts\<close>

lemma route_eq:
  "route opts handler s req now =
     (if fst (rate_check opts (hits s) (userId req) now)
      then (case usageAndAuthMiddleware (usageTracker s) req of
              Reject r \<Rightarrow> Respond r
            | Next u v \<Rightarrow> handler req u v)
      else Respond \<lparr>status = 429, payload = message opts\<rparr>,
      s\<lparr>hits := snd (rate_check opts (hits s) (userId req) now)\<rparr>)"
  by (cases "rate_check opts (hits s) (userId req) now")
     (auto simp: route_def rateLimit_def split: auth.splits)

lemma server_js_route:
  "gemini_proxy_server_js e = route apiLimiter_server_js (gemini_handler e)"
  by (rule ext)+
     (auto simp: gemini_proxy_server_js_def route_def usageAndAuthMiddleware_def
        gemini_handler_def Let_def split: prod.splits option.splits)

lemma rate_check_other_key:
  "k' \<noteq> k \<Longrightarrow> snd (rate_check opts store k' now) k = store k"
  by (simp add: rate_check_def Let_def)

lemma rate_check_entry:
  "\<exists>en. snd (rate_check opts store k now) k = Some en"
  by (simp add: rate_check_def Let_def)

lemma budget_other_key:
  "k' \<noteq> k \<Longrightarrow> budget opts (snd (rate_check opts store k' now)) k w = budget opts store k w"
  by (simp add: budget_def rate_check_other_key)

lemma budget_refused:
  "0 < windowMs opts \<Longrightarrow> \<not> fst (rate_check opts store k now) \<Longrightarrow>
   budget opts (snd (rate_check opts store k now)) k w \<le> budget opts store k w"
  by (auto simp: budget_def rate_check_def Let_def split: option.splits if_splits)

lemma budget_admitted:
  "0 < windowMs opts \<Longrightarrow> fst (rate_check opts store k now) \<Longrightarrow>
   snd (rate_check opts store k now) k = Some en \<Longrightarrow>
   (if windowStart en = w then 1 else 0) + budget opts (snd (rate_check opts store k now)) k w
     \<le> budget opts store k w"
  by (auto simp: budget_def rate_check_def Let_def split: option.splits if_splits)

lemma budget_mono:
  "0 < windowMs opts \<Longrightarrow>
   budget opts (snd (rate_check opts store k' now)) k w \<le> budget opts store k w"
proof (cases "k' = k")
  case False
  then show ?thesis by (simp add: budget_other_key)
next
  case True
  assume pos: "0 < windowMs opts"
  show ?thesis
  proof (cases "fst (rate_check opts store k now)")
    case False
    with pos True show ?thesis by (simp add: budget_refused)
  next
    case adm: True
    obtain en where en: "snd (rate_check opts store k now) k = Some en"
      using rate_check_entry by blast
    from budget_admitted[OF pos adm en, of w] True show ?thesis by simp
  qed
qed

lemma settle_hits: "hits (snd (settle p res s)) = hits s"
  by (simp add: settle_def split: upstream_result.splits option.splits)

lemma step_settled_hits: "hits (snd (step app s (Settled i res))) = hits s"
  by (cases "settle (inflight s ! i) res
        (s\<lparr>inflight := take i (inflight s) @ drop (Suc i) (inflight s)\<rparr>)")
     (use settle_hits[of "inflight s ! i" res
        "s\<lparr>inflight := take i (inflight s) @ drop (Suc i) (inflight s)\<rparr>"] in auto)

text \<open>One event uses up at least as much of a window's budget as it dispatches into it.\<close>

lemma step_budget:
  assumes pos: "0 < windowMs opts" and lim: "limited_by opts app"
    and st: "step app s ev = (item, s1)"
  shows "(if dispatched_in_window k w (ev, item, s1) then 1 else 0)
           + budget opts (hits s1) k w \<le> budget opts (hits s) k w"
proof (cases ev)
  case (Settled i res)
  with st have "hits s1 = hits s"
    using step_settled_hits[of app s i res] by simp
  with Settled show ?thesis by (simp add: dispatched_in_window_def)
next
  case (Incoming r req now)
  let ?rc = "rate_check opts (hits s) (userId req) now"
  from lim have h: "hits (snd (app r s req now)) = snd ?rc"
    unfolding limited_by_def by blast
  from lim have a: "\<And>p. fst (app r s req now) = Await p \<Longrightarrow> fst ?rc"
    unfolding limited_by_def by blast
  show ?thesis
  proof (cases "fst (app r s req now)")
    case (Respond res)
    with st Incoming h have "hits s1 = snd ?rc" "item = Answered res"
      by (auto split: prod.splits outcome.splits)
    with Incoming pos show ?thesis
      by (simp add: dispatched_in_window_def budget_mono)
  next
    case (Await p)
    with st Incoming h have s1: "hits s1 = snd ?rc" and it: "item = Dispatched p"
      by (auto split: prod.splits outcome.splits)
    from a Await have adm: "fst ?rc" by simp
    show ?thesis
    proof (cases "userId req = k")
      case False
      with Incoming it s1 pos show ?thesis
        by (simp add: dispatched_in_window_def budget_mono)
    next
      case True
      obtain en where en: "snd (rate_check opts (hits s) k now) k = Some en"
        using rate_check_entry by blast
      from budget_admitted[OF pos _ en, of w] adm True
      have "(if windowStart en = w then 1 else 0)
              + budget opts (snd (rate_check opts (hits s) k now)) k w
            \<le> budget opts (hits s) k w" by simp
      with Incoming it s1 True en show ?thesis
        by (simp add: dispatched_in_window_def)
    qed
  qed
qed

lemma run_budget:
  assumes pos: "0 < windowMs opts" and lim: "limited_by opts app"
  shows "length (filter (dispatched_in_window k w) (zip evs (run app s evs)))
           \<le> budget opts (hits s) k w"
proof (induction evs arbitrary: s)
  case Nil
  then show ?case by simp
next
  case (Cons ev evs)
  obtain item s1 where st: "step app s ev = (item, s1)"
    by (cases "step app s ev")
  from step_budget[OF pos lim st, of k w] Cons.IH[of s1] st
  show ?case by (simp split: if_splits)
qed

lemma route_limited: "limited_by opts (\<lambda>r. route opts (handler r))"
  by (auto simp: limited_by_def route_eq usageAndAuthMiddleware_def split: if_splits)

lemma app_part_000_limited: "limited_by apiLimiter (app_part_000 e)"
proof -
  have "app_part_000 e = (\<lambda>r. route apiLimiter
          (case r of GeminiProxy \<Rightarrow> gemini_handler e | SearchProxy \<Rightarrow> search_handler e))"
    by (rule ext, case_tac r) (simp_all add: gemini_proxy_def search_proxy_def)
  then show ?thesis by (simp add: route_limited)
qed

lemma app_server_js_limited: "limited_by apiLimiter_server_js (app_server_js e)"
proof -
  have "app_server_js e = (\<lambda>r. route apiLimiter_server_js (gemini_handler e))"
    by (rule ext) (simp add: app_server_js_def server_js_route)
  then show ?thesis by (simp add: route_limited)
qed

lemma window_full_refused:
  "store k = Some en \<Longrightarrow> now - windowStart en < windowMs opts \<Longrightarrow> max_hits opts \<le> count en
   \<Longrightarrow> \<not> fst (rate_check opts store k now)"
  by (simp add: rate_check_def Let_def)

lemma init_budget: "budget opts (hits init) k w = max_hits opts"
  by (simp add: budget_def init_def)

lemma rate_check_starts_before:
  "starts_before store now \<Longrightarrow> starts_before (snd (rate_check opts store k now)) now"
  by (auto simp: starts_before_def rate_check_def Let_def split: option.splits if_splits)

lemma rate_check_in_window:
  "0 < windowMs opts \<Longrightarrow> starts_before store now \<Longrightarrow>
   \<exists>en. snd (rate_check opts store k now) k = Some en
        \<and> windowStart en \<le> now \<and> now < windowStart en + windowMs opts"
  by (auto simp: starts_before_def rate_check_def Let_def split: option.splits if_splits)

lemma starts_before_mono: "starts_before store t \<Longrightarrow> t \<le> t' \<Longrightarrow> starts_before store t'"
  by (fastforce simp: starts_before_def)

lemma init_starts_before: "starts_before (hits init) t"
  by (simp add: starts_before_def init_def)

lemma step_incoming_hits:
  assumes lim: "limited_by opts app" and st: "step app s (Incoming r req now) = (item, s1)"
  shows "hits s1 = snd (rate_check opts (hits s) (userId req) now)"
proof -
  from lim have h: "hits (snd (app r s req now)) = snd (rate_check opts (hits s) (userId req) now)"
    unfolding limited_by_def by blast
  from st h show ?thesis
    by (cases "app r s req now") (auto split: outcome.splits)
qed

text \<open>While the clock does not run backwards, every request falls inside its window.\<close>

lemma run_in_window:
  assumes pos: "0 < windowMs opts" and lim: "limited_by opts app"
  shows "starts_before (hits s) t \<Longrightarrow> sorted (t # arrivals evs) \<Longrightarrow>
         list_all (in_its_window opts) (zip evs (run app s evs))"
proof (induction evs arbitrary: s t)
  case Nil
  then show ?case by simp
next
  case (Cons ev evs)
  obtain item s1 where st: "step app s ev = (item, s1)"
    by (cases "step app s ev")
  show ?case
  proof (cases ev)
    case (Settled i res)
    with st have "hits s1 = hits s" using step_settled_hits[of app s i res] by simp
    with Cons.prems Settled have tl: "list_all (in_its_window opts) (zip evs (run app s1 evs))"
      using Cons.IH[of s1 t] by simp
    from Settled have hd: "in_its_window opts (ev, item, s1)" by (simp add: in_its_window_def)
    from st hd tl show ?thesis by simp
  next
    case (Incoming r req now)
    from st Incoming have st': "step app s (Incoming r req now) = (item, s1)" by simp
    from step_incoming_hits[OF lim st']
    have h: "hits s1 = snd (rate_check opts (hits s) (userId req) now)" .
    from Cons.prems Incoming have le: "t \<le> now" and so: "sorted (now # arrivals evs)"
      by simp_all
    from Cons.prems(1) le have sb: "starts_before (hits s) now" by (rule starts_before_mono)
    from sb h have sb1: "starts_before (hits s1) now" by (simp add: rate_check_starts_before)
    from rate_check_in_window[OF pos sb, of "userId req"] h
    have hd: "in_its_window opts (ev, item, s1)" by (auto simp: in_its_window_def Incoming)
    from Cons.IH[OF sb1 so] have tl: "list_all (in_its_window opts) (zip evs (run app s1 evs))" .
    from st hd tl show ?thesis by simp
  qed
qed

lemma run_init_in_window:
  assumes pos: "0 < windowMs opts" and lim: "limited_by opts app" and so: "sorted (arrivals evs)"
  shows "list_all (in_its_window opts) (zip evs (run app init evs))"
proof (cases "arrivals evs")
  case Nil
  then have "sorted (0 # arrivals evs)" by simp
  from run_in_window[OF pos lim init_starts_before this] show ?thesis .
next
  case (Cons a as)
  with so have "sorted (a # arrivals evs)" by auto
  from run_in_window[OF pos lim init_starts_before this] show ?thesis .
qed

text \<open>The window starts the limiter holds are the fixed windows of the key.\<close>

lemma rate_check_label:
  "map_option windowStart (snd (rate_check opts store k now) k) =
     Some (case map_option windowStart (store k) of
             None \<Rightarrow> now
           | Some c \<Rightarrow> if now - c \<ge> windowMs opts then now else c)"
  by (simp add: rate_check_def Let_def split: option.splits)

lemma run_labels:
  assumes lim: "limited_by opts app"
  shows "map (window_label k) (filter (request_of_key k) (zip evs (run app s evs))) =
         map Some (windows (windowMs opts) (map_option windowStart (hits s k)) (arrivals_of k evs))"
proof (induction evs arbitrary: s)
  case Nil
  then show ?case by simp
next
  case (Cons ev evs)
  obtain item s1 where st: "step app s ev = (item, s1)"
    by (cases "step app s ev")
  show ?case
  proof (cases ev)
    case (Settled i res)
    with st have h: "hits s1 = hits s" using step_settled_hits[of app s i res] by simp
    have nr: "\<not> request_of_key k (ev, item, s1)" by (simp add: request_of_key_def Settled)
    from Cons.IH[of s1] h nr st Settled show ?thesis by simp
  next
    case (Incoming r req now)
    from st Incoming have st': "step app s (Incoming r req now) = (item, s1)" by simp
    from step_incoming_hits[OF lim st']
    have h: "hits s1 = snd (rate_check opts (hits s) (userId req) now)" .
    show ?thesis
    proof (cases "userId req = k")
      case False
      with h have hk: "hits s1 k = hits s k" by (simp add: rate_check_other_key)
      from False have nr: "\<not> request_of_key k (ev, item, s1)"
        by (simp add: request_of_key_def Incoming)
      from Cons.IH[of s1] hk nr st Incoming False show ?thesis by simp
    next
      case True
      have r: "request_of_key k (ev, item, s1)" by (simp add: request_of_key_def Incoming True)
      from h True rate_check_label[of opts "hits s" k now]
      have l: "map_option windowStart (hits s1 k) =
          Some (case map_option windowStart (hits s k) of
             None \<Rightarrow> now
           | Some c \<Rightarrow> if now - c \<ge> windowMs opts then now else c)" by simp
      from Cons.IH[of s1] l r st Incoming True show ?thesis
        by (simp add: window_label_def Let_def)
    qed
  qed
qed

lemma windows_from:
  "0 < W \<Longrightarrow> x \<in> set (windows W (Some c) ts) \<Longrightarrow> x = c \<or> c + W \<le> x"
proof (induction ts arbitrary: c)
  case Nil
  then show ?case by simp
next
  case (Cons t ts)
  let ?w = "if t - c \<ge> W then t else c"
  from Cons.prems have "x = ?w \<or> x \<in> set (windows W (Some ?w) ts)" by (simp add: Let_def)
  then show ?case
  proof
    assume "x = ?w" with Cons.prems(1) show ?thesis by (auto split: if_splits)
  next
    assume "x \<in> set (windows W (Some ?w) ts)"
    from Cons.IH[OF Cons.prems(1) this] Cons.prems(1) show ?thesis by (auto split: if_splits)
  qed
qed

lemma windows_apart:
  "0 < W \<Longrightarrow> x \<in> set (windows W cur ts) \<Longrightarrow> y \<in> set (windows W cur ts) \<Longrightarrow>
   x = y \<or> x + W \<le> y \<or> y + W \<le> x"
proof (induction ts arbitrary: cur)
  case Nil
  then show ?case by simp
next
  case (Cons t ts)
  let ?w = "case cur of None \<Rightarrow> t | Some c \<Rightarrow> if t - c \<ge> W then t else c"
  from Cons.prems have x: "x = ?w \<or> x \<in> set (windows W (Some ?w) ts)"
    and y: "y = ?w \<or> y \<in> set (windows W (Some ?w) ts)" by (simp_all add: Let_def)
  from Cons.prems(1) have a: "\<And>z. z \<in> set (windows W (Some ?w) ts) \<Longrightarrow> z = ?w \<or> ?w + W \<le> z"
    by (rule windows_from)
  from x y show ?case
  proof (elim disjE)
    assume "x = ?w" "y = ?w" then show ?thesis by simp
  next
    assume "x = ?w" "y \<in> set (windows W (Some ?w) ts)"
    with a[of y] show ?thesis by auto
  next
    assume "x \<in> set (windows W (Some ?w) ts)" "y = ?w"
    with a[of x] show ?thesis by auto
  next
    assume "x \<in> set (windows W (Some ?w) ts)" "y \<in> set (windows W (Some ?w) ts)"
    with Cons.IH[OF Cons.prems(1)] show ?thesis by blast
  qed
qed

lemma length_filter_mono:
  "(\<And>x. x \<in> set xs \<Longrightarrow> P x \<Longrightarrow> Q x) \<Longrightarrow> length (filter P xs) \<le> length (filter Q xs)"
  by (induction xs) auto

lemma dispatched_between_shape:
  assumes "dispatched_between k w W x"
  shows "\<exists>r req now p s'. x = (Incoming r req now, Dispatched p, s')
           \<and> userId req = k \<and> w \<le> now \<and> now < w + W"
proof -
  obtain ev item s' where x: "x = (ev, item, s')" by (cases x)
  with assms show ?thesis
    by (cases ev; cases item) (simp_all add: dispatched_between_def)
qed

lemma interval_bound:
  assumes pos: "0 < windowMs opts" and lim: "limited_by opts app"
    and so: "sorted (arrivals evs)"
    and w: "w \<in> set (windows (windowMs opts) None (arrivals_of k evs))"
  shows "length (filter (dispatched_between k w (windowMs opts)) (zip evs (run app init evs)))
           \<le> max_hits opts"
proof -
  let ?xs = "zip evs (run app init evs)"
  have "\<And>x. x \<in> set ?xs \<Longrightarrow> dispatched_between k w (windowMs opts) x \<Longrightarrow>
          dispatched_in_window k w x"
  proof -
    fix x assume x: "x \<in> set ?xs" and d: "dispatched_between k w (windowMs opts) x"
    from dispatched_between_shape[OF d]
    obtain r req now p s' where xe: "x = (Incoming r req now, Dispatched p, s')"
      and uk: "userId req = k" and t: "w \<le> now" "now < w + windowMs opts"
      by blast
    from run_init_in_window[OF pos lim so] x have "in_its_window opts x"
      by (simp add: list_all_iff)
    with xe uk obtain en where en: "hits s' k = Some en"
      and b: "windowStart en \<le> now" "now < windowStart en + windowMs opts"
      by (auto simp: in_its_window_def split: option.splits)
    from xe uk have rk: "request_of_key k x" by (simp add: request_of_key_def)
    with x have "window_label k x \<in> set (map (window_label k) (filter (request_of_key k) ?xs))"
      by simp
    with run_labels[OF lim, of k evs init]
    have "window_label k x \<in> Some ` set (windows (windowMs opts) None (arrivals_of k evs))"
      by (simp add: init_def)
    with xe en have "windowStart en \<in> set (windows (windowMs opts) None (arrivals_of k evs))"
      by (auto simp: window_label_def)
    from windows_apart[OF pos this w] t b have "windowStart en = w" by auto
    with xe uk en show "dispatched_in_window k w x" by (simp add: dispatched_in_window_def)
  qed
  then have "length (filter (dispatched_between k w (windowMs opts)) ?xs)
        \<le> length (filter (dispatched_in_window k w) ?xs)" by (rule length_filter_mono)
  also have "\<dots> \<le> max_hits opts"
    using run_budget[OF pos lim, of k w evs init] by (simp add: init_budget)
  finally show ?thesis .
qed

text \<open>A used-up quota with no request of the key in flight stays used up.\<close>

lemma get_prop_number:
  "get_prop tracker k = Some (Number n) \<longleftrightarrow> tracker k = Some (Number n)"
  by (auto simp: get_prop_def split: option.splits)

lemma set_prop_other: "k' \<noteq> k \<Longrightarrow> set_prop tracker k' v k = tracker k"
  by (simp add: set_prop_def)

lemma settle_other_key:
  "p_userId p \<noteq> k \<Longrightarrow> usageTracker (snd (settle p res s)) k = usageTracker s k"
  by (simp add: settle_def set_prop_other split: upstream_result.splits option.splits)

lemma settle_inflight: "inflight (snd (settle p res s)) = inflight s"
  by (simp add: settle_def split: upstream_result.splits option.splits)

lemma not_waiting_nth:
  "\<not> waiting_for k s \<Longrightarrow> i < length (inflight s) \<Longrightarrow> p_userId (inflight s ! i) \<noteq> k"
  by (auto simp: waiting_for_def list_ex_iff)

lemma not_waiting_removed:
  "\<not> list_ex P xs \<Longrightarrow> \<not> list_ex P (take i xs @ drop (Suc i) xs)"
  by (auto simp: list_ex_iff dest: in_set_takeD in_set_dropD)

lemma step_exhausted:
  assumes keeps: "\<And>r req u v p. h r req u v = Await p \<Longrightarrow> p_userId p = u"
    and ne: "k \<noteq> []"
    and tr: "usageTracker s k = Some (Number n)" and lim: "FREE_TRIAL_LIMIT \<le> n"
    and nw: "\<not> waiting_for k s"
    and st: "step (\<lambda>r. route opts (h r)) s ev = (item, s1)"
  shows "usageTracker s1 k = Some (Number n) \<and> \<not> waiting_for k s1
         \<and> stays_exhausted opts k n (ev, item, s1)"
proof (cases ev)
  case (Settled i res)
  show ?thesis
  proof (cases "i < length (inflight s)")
    case False
    with st Settled tr nw show ?thesis
      by (simp add: stays_exhausted_def get_prop_number)
  next
    case True
    let ?s' = "s\<lparr>inflight := take i (inflight s) @ drop (Suc i) (inflight s)\<rparr>"
    let ?p = "inflight s ! i"
    from not_waiting_nth[OF nw True] have pk: "p_userId ?p \<noteq> k" .
    from st Settled True have s1: "s1 = snd (settle ?p res ?s')"
      by (auto split: prod.splits)
    from settle_other_key[OF pk, of res ?s'] tr s1
    have a: "usageTracker s1 k = Some (Number n)" by simp
    from nw have "\<not> list_ex (\<lambda>p. p_userId p = k) (take i (inflight s) @ drop (Suc i) (inflight s))"
      unfolding waiting_for_def by (rule not_waiting_removed)
    with s1 have b: "\<not> waiting_for k s1"
      by (simp add: waiting_for_def settle_inflight)
    from a b Settled show ?thesis by (simp add: stays_exhausted_def get_prop_number)
  qed
next
  case (Incoming r req now)
  let ?rc = "rate_check opts (hits s) (userId req) now"
  let ?out = "fst (route opts (h r) s req now)"
  have s': "snd (route opts (h r) s req now) = s\<lparr>hits := snd ?rc\<rparr>"
    by (simp add: route_eq)
  show ?thesis
  proof (cases "userId req = Some k")
    case True
    with ne tr lim have "?out = Respond \<lparr>status = 429, payload = ErrorJson
          ''Free trial limit reached. Please add your own API key in the settings to continue.''\<rparr>
        \<or> ?out = Respond \<lparr>status = 429, payload = message opts\<rparr>"
      by (auto simp: route_eq usageAndAuthMiddleware_def get_prop_def or_zero_def truthy_def
            ge_number_def FREE_TRIAL_LIMIT_def)
    with st Incoming s' True tr nw show ?thesis
      by (cases "route opts (h r) s req now")
         (auto simp: stays_exhausted_def get_prop_number waiting_for_def)
  next
    case False
    have "\<And>p. ?out = Await p \<Longrightarrow> p_userId p \<noteq> k"
    proof -
      fix p assume "?out = Await p"
      then obtain u v where "userId req = Some u" "h r req u v = Await p"
        by (auto simp: route_eq usageAndAuthMiddleware_def Let_def
              split: if_splits option.splits auth.splits)
      with keeps False show "p_userId p \<noteq> k" by auto
    qed
    with st Incoming s' False tr nw show ?thesis
      by (cases "route opts (h r) s req now"; cases ?out)
         (auto simp: stays_exhausted_def get_prop_number waiting_for_def)
  qed
qed

lemma run_exhausted:
  assumes keeps: "\<And>r req u v p. h r req u v = Await p \<Longrightarrow> p_userId p = u"
    and ne: "k \<noteq> []" and lim: "FREE_TRIAL_LIMIT \<le> n"
  shows "usageTracker s k = Some (Number n) \<Longrightarrow> \<not> waiting_for k s \<Longrightarrow>
         list_all (stays_exhausted opts k n) (zip evs (run (\<lambda>r. route opts (h r)) s evs))"
proof (induction evs arbitrary: s)
  case Nil
  then show ?case by simp
next
  case (Cons ev evs)
  obtain item s1 where st: "step (\<lambda>r. route opts (h r)) s ev = (item, s1)"
    by (cases "step (\<lambda>r. route opts (h r)) s ev")
  from step_exhausted[OF keeps ne Cons.prems(1) lim Cons.prems(2) st]
  have a: "usageTracker s1 k = Some (Number n)" and b: "\<not> waiting_for k s1"
    and c: "stays_exhausted opts k n (ev, item, s1)" by simp_all
  from Cons.IH[OF a b] c st show ?case by simp
qed

lemma app_part_000_routes:
  "app_part_000 e = (\<lambda>r. route apiLimiter
          (case r of GeminiProxy \<Rightarrow> gemini_handler e | SearchProxy \<Rightarrow> search_handler e))"
  by (rule ext, case_tac r) (simp_all add: gemini_proxy_def search_proxy_def)

lemma app_server_js_routes:
  "app_server_js e = (\<lambda>r. route apiLimiter_server_js (gemini_handler e))"
  by (rule ext) (simp add: app_server_js_def server_js_route)

lemma gemini_handler_user: "gemini_handler e req u v = Await p \<Longrightarrow> p_userId p = u"
  by (auto simp: gemini_handler_def)

lemma search_handler_user: "search_handler e req u v = Await p \<Longrightarrow> p_userId p = u"
  by (auto simp: search_handler_def split: option.splits if_splits)

text \<open>States that the runs above reach.\<close>

lemma twenty_served_usage:
  "get_prop (usageTracker (exec (app_part_000 example_env) init twenty_served)) ''u1''
     = Some (Number 20)"
  by code_simp

lemma twenty_served_server_js_usage:
  "get_prop (usageTracker (exec (app_server_js example_env) init twenty_served_server_js)) ''u1''
     = Some (Number 20)"
  by code_simp

section \<open>Properties\<close>

text \<open>
  C6. When the upstream call of an admitted request fails at the transport level
  (\<^verbatim>\<open>fetch\<close> rejects, whatever the error) or the parse of the body throws, each
  endpoint answers HTTP 500 with the fixed message "An error occurred on the proxy
  server.", which does not depend on the error, and the server's state, the usage
  tracker included, is unchanged.
\<close>

theorem transport_failure_generic_500:
  "settle p (NetworkError cause) s =
     (\<lparr>status = 500, payload = ErrorJson ''An error occurred on the proxy server.''\<rparr>, s)
   \<and> settle p (HttpResponse st None) s =
     (\<lparr>status = 500, payload = ErrorJson ''An error occurred on the proxy server.''\<rparr>, s)"
  by (simp add: settle_def)

text \<open>
  C1 (as the code has it). On either endpoint and in both files the rate limiter runs
  first, keyed by \<^verbatim>\<open>req.body.userId\<close> even when that is absent or empty, and it
  counts the request. If the limiter admits a request whose \<^verbatim>\<open>userId\<close> is absent or
  empty, the request is answered with HTTP 400 "Missing user ID."; if the limiter
  refuses it, it is answered with the limiter's HTTP 429. In both cases nothing but
  the limiter's store changes: the usage tracker is neither read nor written and no
  upstream call is made.
\<close>

theorem missing_identity_rejected_after_rate_check:
  assumes "userId req = None \<or> userId req = Some []"
  shows "gemini_proxy_server_js e s req now =
           (Respond (if fst (rate_check apiLimiter_server_js (hits s) (userId req) now)
                     then \<lparr>status = 400, payload = ErrorJson ''Missing user ID.''\<rparr>
                     else \<lparr>status = 429, payload = message apiLimiter_server_js\<rparr>),
            s\<lparr>hits := snd (rate_check apiLimiter_server_js (hits s) (userId req) now)\<rparr>)
       \<and> gemini_proxy e s req now =
           (Respond (if fst (rate_check apiLimiter (hits s) (userId req) now)
                     then \<lparr>status = 400, payload = ErrorJson ''Missing user ID.''\<rparr>
                     else \<lparr>status = 429, payload = message apiLimiter\<rparr>),
            s\<lparr>hits := snd (rate_check apiLimiter (hits s) (userId req) now)\<rparr>)
       \<and> search_proxy e s req now =
           (Respond (if fst (rate_check apiLimiter (hits s) (userId req) now)
                     then \<lparr>status = 400, payload = ErrorJson ''Missing user ID.''\<rparr>
                     else \<lparr>status = 429, payload = message apiLimiter\<rparr>),
            s\<lparr>hits := snd (rate_check apiLimiter (hits s) (userId req) now)\<rparr>)"
  using assms
  by (auto simp: server_js_route gemini_proxy_def search_proxy_def route_eq
        usageAndAuthMiddleware_def)

text \<open>
  The first request of a fresh server, without a \<^verbatim>\<open>userId\<close>: answered 400 on each
  route, and counted by the limiter under the key \<open>None\<close>.
\<close>

theorem missing_identity_rejected_after_rate_check_witness:
  "(userId (request_of None) = None \<or> userId (request_of None) = Some [])
   \<and> fst (gemini_proxy_server_js example_env init (request_of None) 0) =
        Respond \<lparr>status = 400, payload = ErrorJson ''Missing user ID.''\<rparr>
   \<and> fst (gemini_proxy example_env init (request_of None) 0) =
        Respond \<lparr>status = 400, payload = ErrorJson ''Missing user ID.''\<rparr>
   \<and> fst (search_proxy example_env init (request_of None) 0) =
        Respond \<lparr>status = 400, payload = ErrorJson ''Missing user ID.''\<rparr>
   \<and> hits (snd (gemini_proxy_server_js example_env init (request_of None) 0)) None =
        Some \<lparr>windowStart = 0, count = 1\<rparr>"
proof -
  have h: "userId (request_of None) = None \<or> userId (request_of None) = Some []"
    by (simp add: request_of_def)
  have a: "fst (rate_check apiLimiter_server_js (hits init) (userId (request_of None)) 0)"
          "fst (rate_check apiLimiter (hits init) (userId (request_of None)) 0)"
    by (simp_all add: rate_check_def init_def apiLimiter_def apiLimiter_server_js_def)
  have b: "snd (rate_check apiLimiter_server_js (hits init) (userId (request_of None)) 0) None
            = Some \<lparr>windowStart = 0, count = 1\<rparr>"
    by (simp add: rate_check_def init_def apiLimiter_server_js_def request_of_def)
  from missing_identity_rejected_after_rate_check[OF h, of example_env init 0] a b h
  show ?thesis by simp
qed

text \<open>
  C1 as stated fails: of six requests without a \<^verbatim>\<open>userId\<close> that reach the fresh
  server of \<^verbatim>\<open>server.js\<close> within one window, the sixth is answered by the rate
  limiter with HTTP 429, not with HTTP 400.
\<close>

theorem missing_identity_rate_limited_first:
  "map fst (run (app_server_js example_env) init (burst () (request_of None) 0 6)) =
     [Answered \<lparr>status = 400, payload = ErrorJson ''Missing user ID.''\<rparr>,
      Answered \<lparr>status = 400, payload = ErrorJson ''Missing user ID.''\<rparr>,
      Answered \<lparr>status = 400, payload = ErrorJson ''Missing user ID.''\<rparr>,
      Answered \<lparr>status = 400, payload = ErrorJson ''Missing user ID.''\<rparr>,
      Answered \<lparr>status = 400, payload = ErrorJson ''Missing user ID.''\<rparr>,
      Answered \<lparr>status = 429,
        payload = ErrorJson ''Too many requests, please try again after a minute.''\<rparr>]"
  by code_simp

text \<open>
  C5 (as the code has it). When the upstream answers an admitted request with a
  status outside 200-299, the handler first parses the body as JSON. If the body
  parses, the client gets the upstream's status code with the parsed body; if it does
  not, the client gets HTTP 500 with the fixed message. In both cases the server's
  state, the usage tracker included, is unchanged.
\<close>

theorem upstream_error_relayed_when_json:
  assumes "\<not> ok st"
  shows "settle p (HttpResponse st (Some data)) s = (\<lparr>status = st, payload = DataJson data\<rparr>, s)
       \<and> settle p (HttpResponse st None) s =
           (\<lparr>status = 500, payload = ErrorJson ''An error occurred on the proxy server.''\<rparr>, s)"
  using assms by (simp add: settle_def)

theorem upstream_error_relayed_when_json_witness:
  "\<not> ok 404
   \<and> settle first_call (HttpResponse 404 (Some ''{\"error\":404}'')) init =
       (\<lparr>status = 404, payload = DataJson ''{\"error\":404}''\<rparr>, init)
   \<and> settle first_call (HttpResponse 404 None) init =
       (\<lparr>status = 500, payload = ErrorJson ''An error occurred on the proxy server.''\<rparr>, init)"
proof -
  have h: "\<not> ok 404" by (simp add: ok_def)
  from upstream_error_relayed_when_json[OF h, of first_call _ init] h
  show ?thesis by simp
qed

text \<open>
  C5 as stated fails: the first gemini request of user \<open>u1\<close> is dispatched, the
  upstream answers 502 with a body that is not JSON, and the client gets 500, not 502.
\<close>

theorem upstream_error_not_json_gets_500:
  "map fst (run (app_part_000 example_env) init
      [Incoming GeminiProxy (request_of (Some ''u1'')) 0, Settled 0 (HttpResponse 502 None)]) =
     [Dispatched first_call,
      Answered \<lparr>status = 500, payload = ErrorJson ''An error occurred on the proxy server.''\<rparr>]"
  by code_simp

text \<open>
  C10. When the upstream answers an admitted request with a 2xx status and a body that
  is not valid JSON, \<^verbatim>\<open>apiResponse.json()\<close> throws before \<^verbatim>\<open>apiResponse.ok\<close> is
  looked at: the client gets HTTP 500 with the fixed message and the server's state,
  the usage tracker included, is unchanged.
\<close>

theorem unparsable_success_is_500_and_free:
  assumes "ok st"
  shows "settle p (HttpResponse st None) s =
           (\<lparr>status = 500, payload = ErrorJson ''An error occurred on the proxy server.''\<rparr>, s)"
  by (simp add: settle_def)

theorem unparsable_success_is_500_and_free_witness:
  "ok 200
   \<and> settle first_call (HttpResponse 200 None) init =
       (\<lparr>status = 500, payload = ErrorJson ''An error occurred on the proxy server.''\<rparr>, init)"
proof -
  have h: "ok 200" by (simp add: ok_def)
  from unparsable_success_is_500_and_free[OF h, of first_call init] h
  show ?thesis by simp
qed

text \<open>
  C2 fails on the code. The handler stores \<^verbatim>\<open>userUsage + 1\<close>, where \<^verbatim>\<open>userUsage\<close>
  is what it read before \<^verbatim>\<open>await fetch\<close>. Two requests of user \<open>u1\<close> that arrive one
  after the other and are both relayed with the upstream's 200 leave
  \<^verbatim>\<open>usageTracker["u1"]\<close> at 1, in either file. And for the user
  \<open>constructor\<close> the value read is the inherited \<^verbatim>\<open>Object\<close> function: two
  requests served one at a time leave a string, not the number 2.
\<close>

theorem overlapping_successes_counted_once:
  "map fst (run (app_part_000 example_env) init
      [Incoming GeminiProxy (request_of (Some ''u1'')) 0,
       Incoming GeminiProxy (request_of (Some ''u1'')) 1,
       Settled 0 success, Settled 0 success]) =
     [Dispatched first_call, Dispatched first_call,
      Answered \<lparr>status = 200, payload = DataJson ''{}''\<rparr>,
      Answered \<lparr>status = 200, payload = DataJson ''{}''\<rparr>]
   \<and> get_prop (usageTracker (exec (app_part_000 example_env) init
      [Incoming GeminiProxy (request_of (Some ''u1'')) 0,
       Incoming GeminiProxy (request_of (Some ''u1'')) 1,
       Settled 0 success, Settled 0 success])) ''u1'' = Some (Number 1)
   \<and> get_prop (usageTracker (exec (app_server_js example_env) init
      [Incoming () (request_of (Some ''u1'')) 0,
       Incoming () (request_of (Some ''u1'')) 1,
       Settled 0 success, Settled 0 success])) ''u1'' = Some (Number 1)
   \<and> map fst (run (app_part_000 example_env) init
        (served GeminiProxy (request_of (Some ''constructor'')) 0 2)) =
       [Dispatched (first_call\<lparr>p_userId := ''constructor'', p_userUsage := Inherited ''constructor''\<rparr>),
        Answered \<lparr>status = 200, payload = DataJson ''{}''\<rparr>,
        Dispatched (first_call\<lparr>p_userId := ''constructor'',
          p_userUsage := Text ''function Object() { [native code] }1''\<rparr>),
        Answered \<lparr>status = 200, payload = DataJson ''{}''\<rparr>]
   \<and> get_prop (usageTracker (exec (app_part_000 example_env) init
        (served GeminiProxy (request_of (Some ''constructor'')) 0 2))) ''constructor'' =
       Some (Text ''function Object() { [native code] }11'')"
  by code_simp

text \<open>
  C3 (as the code has it). Let \<open>k\<close> be a non-empty key whose value in
  \<^verbatim>\<open>usageTracker\<close> is a number of at least \<open>FREE_TRIAL_LIMIT\<close>, at a moment when no
  request of \<open>k\<close> is waiting for its upstream call. Then in every run of either server
  from that state on, whatever requests arrive and however the waiting calls of
  other keys settle, the tracker's value for \<open>k\<close> never changes and every request of
  \<open>k\<close> is answered with HTTP 429 and never handed to the upstream. The 429 carries the
  quota message when the rate limiter admits the request and the limiter's message
  when the limiter refuses it, on each route of both files.
\<close>

theorem exhausted_key_stays_refused:
  assumes "k \<noteq> []" and "get_prop (usageTracker s) k = Some (Number n)"
    and "FREE_TRIAL_LIMIT \<le> n" and "\<not> waiting_for k s"
  shows "list_all (stays_exhausted apiLimiter_server_js k n)
           (zip evs (run (app_server_js e) s evs))
       \<and> list_all (stays_exhausted apiLimiter k n)
           (zip evs' (run (app_part_000 e) s evs'))
       \<and> (userId req = Some k \<longrightarrow>
           gemini_proxy_server_js e s req now =
             (Respond \<lparr>status = 429,
                payload = (if fst (rate_check apiLimiter_server_js (hits s) (userId req) now)
                           then ErrorJson ''Free trial limit reached. Please add your own API key in the settings to continue.''
                           else message apiLimiter_server_js)\<rparr>,
              s\<lparr>hits := snd (rate_check apiLimiter_server_js (hits s) (userId req) now)\<rparr>)
         \<and> gemini_proxy e s req now =
             (Respond \<lparr>status = 429,
                payload = (if fst (rate_check apiLimiter (hits s) (userId req) now)
                           then ErrorJson ''Free trial limit reached. Please add your own API key in the settings to continue.''
                           else message apiLimiter)\<rparr>,
              s\<lparr>hits := snd (rate_check apiLimiter (hits s) (userId req) now)\<rparr>)
         \<and> search_proxy e s req now =
             (Respond \<lparr>status = 429,
                payload = (if fst (rate_check apiLimiter (hits s) (userId req) now)
                           then ErrorJson ''Free trial limit reached. Please add your own API key in the settings to continue.''
                           else message apiLimiter)\<rparr>,
              s\<lparr>hits := snd (rate_check apiLimiter (hits s) (userId req) now)\<rparr>))"
proof -
  from assms(2) have tr: "usageTracker s k = Some (Number n)" by (simp add: get_prop_number)
  have a: "list_all (stays_exhausted apiLimiter_server_js k n)
           (zip evs (run (app_server_js e) s evs))"
    unfolding app_server_js_routes
    by (rule run_exhausted[OF gemini_handler_user assms(1) assms(3) tr assms(4)])
  have keeps: "\<And>r req u v p.
      (case r of GeminiProxy \<Rightarrow> gemini_handler e | SearchProxy \<Rightarrow> search_handler e) req u v
        = Await p \<Longrightarrow> p_userId p = u"
    by (auto split: route_name.splits dest: gemini_handler_user search_handler_user)
  have b: "list_all (stays_exhausted apiLimiter k n)
           (zip evs' (run (app_part_000 e) s evs'))"
    unfolding app_part_000_routes
    by (rule run_exhausted[OF keeps assms(1) assms(3) tr assms(4)])
  have c: "userId req = Some k \<longrightarrow>
           gemini_proxy_server_js e s req now =
             (Respond \<lparr>status = 429,
                payload = (if fst (rate_check apiLimiter_server_js (hits s) (userId req) now)
                           then ErrorJson ''Free trial limit reached. Please add your own API key in the settings to continue.''
                           else message apiLimiter_server_js)\<rparr>,
              s\<lparr>hits := snd (rate_check apiLimiter_server_js (hits s) (userId req) now)\<rparr>)
         \<and> gemini_proxy e s req now =
             (Respond \<lparr>status = 429,
                payload = (if fst (rate_check apiLimiter (hits s) (userId req) now)
                           then ErrorJson ''Free trial limit reached. Please add your own API key in the settings to continue.''
                           else message apiLimiter)\<rparr>,
              s\<lparr>hits := snd (rate_check apiLimiter (hits s) (userId req) now)\<rparr>)
         \<and> search_proxy e s req now =
             (Respond \<lparr>status = 429,
                payload = (if fst (rate_check apiLimiter (hits s) (userId req) now)
                           then ErrorJson ''Free trial limit reached. Please add your own API key in the settings to continue.''
                           else message apiLimiter)\<rparr>,
              s\<lparr>hits := snd (rate_check apiLimiter (hits s) (userId req) now)\<rparr>)"
    using assms(1,2,3)
    by (auto simp: server_js_route gemini_proxy_def search_proxy_def route_eq
          usageAndAuthMiddleware_def or_zero_def truthy_def ge_number_def FREE_TRIAL_LIMIT_def)
  from a b c show ?thesis by blast
qed

text \<open>
  After twenty served requests user \<open>u1\<close> has used the quota up and waits for nothing.
  In what follows \<open>u1\<close> is turned away each time while \<open>u2\<close> is served; a request of
  \<open>u1\<close> in the window that is still full gets the limiter's message.
\<close>

theorem exhausted_key_stays_refused_witness:
  "''u1'' \<noteq> []
   \<and> get_prop (usageTracker (exec (app_part_000 example_env) init twenty_served)) ''u1''
       = Some (Number 20)
   \<and> FREE_TRIAL_LIMIT \<le> 20
   \<and> \<not> waiting_for ''u1'' (exec (app_part_000 example_env) init twenty_served)
   \<and> list_all (stays_exhausted apiLimiter ''u1'' 20)
        (zip after_exhaustion
          (run (app_part_000 example_env) (exec (app_part_000 example_env) init twenty_served)
             after_exhaustion))
   \<and> map fst (run (app_part_000 example_env) (exec (app_part_000 example_env) init twenty_served)
             after_exhaustion)
      = [Answered \<lparr>status = 429, payload = ErrorJson
           ''Free trial limit reached. Please add your own API key in the settings to continue.''\<rparr>,
         Dispatched (first_call\<lparr>p_userId := ''u2'',
           p_call := \<lparr>target = CustomSearch, api_key = Some ''s-key'', cx = Some ''cx'',
                      q = ''cats'', start = 1, body = None\<rparr>\<rparr>),
         Answered \<lparr>status = 200, payload = DataJson ''{}''\<rparr>,
         Answered \<lparr>status = 429, payload = ErrorJson
           ''Free trial limit reached. Please add your own API key in the settings to continue.''\<rparr>]
   \<and> list_all (stays_exhausted apiLimiter_server_js ''u1'' 20)
        (zip (burst () (request_of (Some ''u1'')) 120000 2)
          (run (app_server_js example_env) (exec (app_part_000 example_env) init twenty_served)
             (burst () (request_of (Some ''u1'')) 120000 2)))
   \<and> userId (request_of (Some ''u1'')) = Some ''u1''
   \<and> fst (gemini_proxy_server_js example_env (exec (app_part_000 example_env) init twenty_served)
          (request_of (Some ''u1'')) 120000)
      = Respond \<lparr>status = 429, payload = ErrorJson
          ''Free trial limit reached. Please add your own API key in the settings to continue.''\<rparr>
   \<and> fst (gemini_proxy example_env (exec (app_part_000 example_env) init twenty_served)
          (request_of (Some ''u1'')) 120000)
      = Respond \<lparr>status = 429, payload = ErrorJson
          ''Free trial limit reached. Please add your own API key in the settings to continue.''\<rparr>
   \<and> fst (search_proxy example_env (exec (app_part_000 example_env) init twenty_served)
          (request_of (Some ''u1'')) 60001)
      = Respond \<lparr>status = 429,
          payload = ErrorJson ''Too many requests, please try again after a minute.''\<rparr>"
proof -
  let ?s = "exec (app_part_000 example_env) init twenty_served"
  have h1: "''u1'' \<noteq> []" by simp
  have h3: "FREE_TRIAL_LIMIT \<le> 20" by (simp add: FREE_TRIAL_LIMIT_def)
  have h4: "\<not> waiting_for ''u1'' ?s" by code_simp
  have u: "userId (request_of (Some ''u1'')) = Some ''u1''" by (simp add: request_of_def)
  have a5: "fst (rate_check apiLimiter_server_js (hits ?s) (userId (request_of (Some ''u1''))) 120000)"
    by code_simp
  have a: "fst (rate_check apiLimiter (hits ?s) (userId (request_of (Some ''u1''))) 120000)"
    by code_simp
  have b: "\<not> fst (rate_check apiLimiter (hits ?s) (userId (request_of (Some ''u1''))) 60001)"
    by code_simp
  have tr: "map fst (run (app_part_000 example_env) ?s after_exhaustion)
      = [Answered \<lparr>status = 429, payload = ErrorJson
           ''Free trial limit reached. Please add your own API key in the settings to continue.''\<rparr>,
         Dispatched (first_call\<lparr>p_userId := ''u2'',
           p_call := \<lparr>target = CustomSearch, api_key = Some ''s-key'', cx = Some ''cx'',
                      q = ''cats'', start = 1, body = None\<rparr>\<rparr>),
         Answered \<lparr>status = 200, payload = DataJson ''{}''\<rparr>,
         Answered \<lparr>status = 429, payload = ErrorJson
           ''Free trial limit reached. Please add your own API key in the settings to continue.''\<rparr>]"
    by code_simp
  note t1 = exhausted_key_stays_refused[OF h1 twenty_served_usage h3 h4,
      where e = example_env and evs' = after_exhaustion
        and evs = "burst () (request_of (Some ''u1'')) 120000 2"
        and req = "request_of (Some ''u1'')" and now = 120000]
  note t2 = exhausted_key_stays_refused[OF h1 twenty_served_usage h3 h4,
      where e = example_env and req = "request_of (Some ''u1'')" and now = 60001]
  from t1 t2 u a5 a b h3 h4 tr twenty_served_usage show ?thesis
    by (simp add: apiLimiter_def)
qed

text \<open>
  C3 as stated fails. After the run \<open>reaching_limit\<close> the tracker holds 20 for \<open>u1\<close>,
  while an earlier request of \<open>u1\<close> still waits for its upstream call. Ten more requests
  in that window: the last is answered by the rate limiter, not with the quota message.
  And when the waiting request is served, it stores the 19 it computed from the value
  it read earlier: the next request of \<open>u1\<close> is dispatched to the upstream again.
\<close>

theorem quota_reopened_or_rate_limited:
  "get_prop (usageTracker (exec (app_part_000 example_env) init reaching_limit)) ''u1''
     = Some (Number 20)
   \<and> waiting_for ''u1'' (exec (app_part_000 example_env) init reaching_limit)
   \<and> fst (last (run (app_part_000 example_env) init
        (reaching_limit @ burst GeminiProxy (request_of (Some ''u1'')) 120003 10)))
     = Answered \<lparr>status = 429,
         payload = ErrorJson ''Too many requests, please try again after a minute.''\<rparr>
   \<and> drop (length reaching_limit) (map fst (run (app_part_000 example_env) init
        (reaching_limit @ [Incoming GeminiProxy (request_of (Some ''u1'')) 120003,
           Settled 0 success,
           Incoming GeminiProxy (request_of (Some ''u1'')) 120004])))
     = [Answered \<lparr>status = 429, payload = ErrorJson
          ''Free trial limit reached. Please add your own API key in the settings to continue.''\<rparr>,
        Answered \<lparr>status = 200, payload = DataJson ''{}''\<rparr>,
        Dispatched (first_call\<lparr>p_userUsage := Number 19\<rparr>)]"
  by code_simp

text \<open>
  C4, for the rate limiter as the spec describes it. Take any run of either server
  from its start in which the clock does not run backwards, any key \<open>k\<close>, and any of
  the fixed windows of \<open>k\<close>, starting at \<open>w\<close> and lasting \<open>windowMs\<close>. Of the requests of
  key \<open>k\<close> that arrive in the interval from \<open>w\<close> to \<open>w + windowMs\<close>, at most \<open>max\<close> are
  handed to the upstream (5 for \<^verbatim>\<open>server.js\<close>; 10 for the later file, over both
  routes together). A request that arrives while its key's window is open and full
  is answered with HTTP 429 and the rate-limit message, and is not handed to the
  upstream.
\<close>

theorem rate_window_bounds_upstream_dispatch:
  "(sorted (arrivals evs)
      \<and> w \<in> set (windows (windowMs apiLimiter_server_js) None (arrivals_of k evs)) \<longrightarrow>
    length (filter (dispatched_between k w (windowMs apiLimiter_server_js))
              (zip evs (run (app_server_js e) init evs)))
      \<le> max_hits apiLimiter_server_js)
   \<and> (sorted (arrivals evs')
      \<and> w' \<in> set (windows (windowMs apiLimiter) None (arrivals_of k evs')) \<longrightarrow>
    length (filter (dispatched_between k w' (windowMs apiLimiter))
              (zip evs' (run (app_part_000 e) init evs')))
      \<le> max_hits apiLimiter)
   \<and> (hits s (userId req) = Some en \<and> now - windowStart en < windowMs apiLimiter_server_js
        \<and> max_hits apiLimiter_server_js \<le> count en \<longrightarrow>
      fst (gemini_proxy_server_js e s req now) = Respond \<lparr>status = 429,
        payload = ErrorJson ''Too many requests, please try again after a minute.''\<rparr>)
   \<and> (hits s' (userId req') = Some en' \<and> now' - windowStart en' < windowMs apiLimiter
        \<and> max_hits apiLimiter \<le> count en' \<longrightarrow>
      fst (gemini_proxy e s' req' now') = Respond \<lparr>status = 429,
        payload = ErrorJson ''Too many requests, please try again after a minute.''\<rparr>
      \<and> fst (search_proxy e s' req' now') = Respond \<lparr>status = 429,
        payload = ErrorJson ''Too many requests, please try again after a minute.''\<rparr>)"
proof -
  have p5: "0 < windowMs apiLimiter_server_js" by (simp add: apiLimiter_server_js_def)
  have p10: "0 < windowMs apiLimiter" by (simp add: apiLimiter_def)
  have a: "sorted (arrivals evs)
      \<and> w \<in> set (windows (windowMs apiLimiter_server_js) None (arrivals_of k evs)) \<longrightarrow>
    length (filter (dispatched_between k w (windowMs apiLimiter_server_js))
              (zip evs (run (app_server_js e) init evs)))
      \<le> max_hits apiLimiter_server_js"
    using interval_bound[OF p5 app_server_js_limited] by blast
  have b: "sorted (arrivals evs')
      \<and> w' \<in> set (windows (windowMs apiLimiter) None (arrivals_of k evs')) \<longrightarrow>
    length (filter (dispatched_between k w' (windowMs apiLimiter))
              (zip evs' (run (app_part_000 e) init evs')))
      \<le> max_hits apiLimiter"
    using interval_bound[OF p10 app_part_000_limited] by blast
  have c: "hits s (userId req) = Some en \<and> now - windowStart en < windowMs apiLimiter_server_js
        \<and> max_hits apiLimiter_server_js \<le> count en \<longrightarrow>
      fst (gemini_proxy_server_js e s req now) = Respond \<lparr>status = 429,
        payload = ErrorJson ''Too many requests, please try again after a minute.''\<rparr>"
    using window_full_refused[of "hits s" "userId req" en now apiLimiter_server_js]
    by (auto simp: server_js_route route_eq) (simp add: apiLimiter_server_js_def)
  have d: "hits s' (userId req') = Some en' \<and> now' - windowStart en' < windowMs apiLimiter
        \<and> max_hits apiLimiter \<le> count en' \<longrightarrow>
      fst (gemini_proxy e s' req' now') = Respond \<lparr>status = 429,
        payload = ErrorJson ''Too many requests, please try again after a minute.''\<rparr>
      \<and> fst (search_proxy e s' req' now') = Respond \<lparr>status = 429,
        payload = ErrorJson ''Too many requests, please try again after a minute.''\<rparr>"
    using window_full_refused[of "hits s'" "userId req'" en' now' apiLimiter]
    by (auto simp: gemini_proxy_def search_proxy_def route_eq) (simp_all add: apiLimiter_def)
  from a b c d show ?thesis by blast
qed

text \<open>
  Scenario B of the spec on \<^verbatim>\<open>server.js\<close>: of six requests of user \<open>u2\<close> within ten
  seconds five are dispatched and the sixth gets the 429; on the later file, of
  eleven, ten and the eleventh.
\<close>

theorem rate_window_bounds_upstream_dispatch_witness:
  "sorted (arrivals six_in_ten_seconds)
   \<and> 0 \<in> set (windows (windowMs apiLimiter_server_js) None
                 (arrivals_of (Some ''u2'') six_in_ten_seconds))
   \<and> length (filter (dispatched_between (Some ''u2'') 0 (windowMs apiLimiter_server_js))
        (zip six_in_ten_seconds (run (app_server_js example_env) init six_in_ten_seconds))) = 5
   \<and> 5 \<le> max_hits apiLimiter_server_js
   \<and> sorted (arrivals eleven_in_ten_seconds)
   \<and> 0 \<in> set (windows (windowMs apiLimiter) None
                 (arrivals_of (Some ''u2'') eleven_in_ten_seconds))
   \<and> length (filter (dispatched_between (Some ''u2'') 0 (windowMs apiLimiter))
        (zip eleven_in_ten_seconds (run (app_part_000 example_env) init eleven_in_ten_seconds))) = 10
   \<and> 10 \<le> max_hits apiLimiter
   \<and> hits (exec (app_server_js example_env) init (butlast six_in_ten_seconds)) (Some ''u2'')
        = Some \<lparr>windowStart = 0, count = 5\<rparr>
   \<and> fst (gemini_proxy_server_js example_env
        (exec (app_server_js example_env) init (butlast six_in_ten_seconds))
        (request_of (Some ''u2'')) 10000)
      = Respond \<lparr>status = 429,
          payload = ErrorJson ''Too many requests, please try again after a minute.''\<rparr>
   \<and> hits (exec (app_part_000 example_env) init (butlast eleven_in_ten_seconds)) (Some ''u2'')
        = Some \<lparr>windowStart = 0, count = 10\<rparr>
   \<and> fst (search_proxy example_env
        (exec (app_part_000 example_env) init (butlast eleven_in_ten_seconds))
        (request_of (Some ''u2'')) 10000)
      = Respond \<lparr>status = 429,
          payload = ErrorJson ''Too many requests, please try again after a minute.''\<rparr>"
proof -
  let ?s5 = "exec (app_server_js example_env) init (butlast six_in_ten_seconds)"
  let ?s10 = "exec (app_part_000 example_env) init (butlast eleven_in_ten_seconds)"
  have so: "sorted (arrivals six_in_ten_seconds)" "sorted (arrivals eleven_in_ten_seconds)"
    by code_simp+
  have w: "0 \<in> set (windows (windowMs apiLimiter_server_js) None
                 (arrivals_of (Some ''u2'') six_in_ten_seconds))"
      "0 \<in> set (windows (windowMs apiLimiter) None
                 (arrivals_of (Some ''u2'') eleven_in_ten_seconds))"
    by code_simp+
  have h5: "hits ?s5 (userId (request_of (Some ''u2''))) = Some \<lparr>windowStart = 0, count = 5\<rparr>"
    by code_simp
  have h10: "hits ?s10 (userId (request_of (Some ''u2''))) = Some \<lparr>windowStart = 0, count = 10\<rparr>"
    by code_simp
  have n5: "length (filter (dispatched_between (Some ''u2'') 0 (windowMs apiLimiter_server_js))
        (zip six_in_ten_seconds (run (app_server_js example_env) init six_in_ten_seconds))) = 5"
    by code_simp
  have n10: "length (filter (dispatched_between (Some ''u2'') 0 (windowMs apiLimiter))
        (zip eleven_in_ten_seconds (run (app_part_000 example_env) init eleven_in_ten_seconds))) = 10"
    by code_simp
  have u: "userId (request_of (Some ''u2'')) = Some ''u2''" by (simp add: request_of_def)
  note t = rate_window_bounds_upstream_dispatch[where evs = six_in_ten_seconds
      and evs' = eleven_in_ten_seconds and e = example_env and k = "Some ''u2''" and w = 0
      and w' = 0
      and s = ?s5 and req = "request_of (Some ''u2'')" and now = 10000
      and en = "\<lparr>windowStart = 0, count = 5\<rparr>"
      and s' = ?s10 and req' = "request_of (Some ''u2'')" and now' = 10000
      and en' = "\<lparr>windowStart = 0, count = 10\<rparr>"]
  from t so w h5 h10 n5 n10 u show ?thesis
    by (simp add: apiLimiter_def apiLimiter_server_js_def)
qed

text \<open>
  C7 fails on the code for the gemini endpoint. With no variable of the environment
  set, the gemini handler of either file builds its URL with the absent key and hands
  the request to the upstream; only the search handler checks its credentials and
  answers HTTP 500 "Server configuration error.".
\<close>

theorem gemini_dispatches_without_key:
  "fst (gemini_proxy no_keys_env init (request_of (Some ''u1'')) 0) =
     Await (first_call\<lparr>p_call := (p_call first_call)\<lparr>api_key := None\<rparr>\<rparr>)
   \<and> fst (gemini_proxy_server_js no_keys_env init (request_of (Some ''u1'')) 0) =
     Await (first_call\<lparr>p_call := (p_call first_call)\<lparr>api_key := None\<rparr>\<rparr>)
   \<and> fst (search_proxy no_keys_env init (request_of (Some ''u1'')) 0) =
     Respond \<lparr>status = 500, payload = ErrorJson ''Server configuration error.''\<rparr>"
  by code_simp

text \<open>
  C8 (as the code has it). A search request whose \<^verbatim>\<open>searchPayload\<close> is absent, or
  whose \<^verbatim>\<open>query\<close> is absent or empty, is never handed to the upstream and changes
  nothing but the limiter's store. The rate limiter and \<open>usageAndAuthMiddleware\<close> run
  before the handler's check: the answer is the limiter's 429 if the limiter refuses
  the request, else the middleware's (400 "Missing user ID." or the quota's 429) if it
  rejects, else HTTP 400 "Missing search query in request body".
\<close>

theorem missing_query_never_dispatched:
  assumes "searchPayload req = None
           \<or> (\<exists>sp. searchPayload req = Some sp \<and> (query sp = None \<or> query sp = Some []))"
  shows "search_proxy e s req now =
           (Respond (if fst (rate_check apiLimiter (hits s) (userId req) now)
                     then (case usageAndAuthMiddleware (usageTracker s) req of
                             Reject r \<Rightarrow> r
                           | Next u v \<Rightarrow> \<lparr>status = 400,
                               payload = ErrorJson ''Missing search query in request body''\<rparr>)
                     else \<lparr>status = 429, payload = message apiLimiter\<rparr>),
            s\<lparr>hits := snd (rate_check apiLimiter (hits s) (userId req) now)\<rparr>)"
  using assms
  by (auto simp: search_proxy_def route_eq search_handler_def falsy_def split: auth.splits)

text \<open>
  The first request of a fresh server, by user \<open>u1\<close>, without a query.
\<close>

theorem missing_query_never_dispatched_witness:
  "(searchPayload (no_query_of (Some ''u1'')) = None
      \<or> (\<exists>sp. searchPayload (no_query_of (Some ''u1'')) = Some sp
            \<and> (query sp = None \<or> query sp = Some [])))
   \<and> fst (search_proxy example_env init (no_query_of (Some ''u1'')) 0) =
       Respond \<lparr>status = 400, payload = ErrorJson ''Missing search query in request body''\<rparr>
   \<and> usageTracker (snd (search_proxy example_env init (no_query_of (Some ''u1'')) 0)) =
       usageTracker init"
proof -
  have h: "searchPayload (no_query_of (Some ''u1'')) = None
      \<or> (\<exists>sp. searchPayload (no_query_of (Some ''u1'')) = Some sp
            \<and> (query sp = None \<or> query sp = Some []))"
    by (simp add: no_query_of_def)
  have a: "fst (rate_check apiLimiter (hits init) (userId (no_query_of (Some ''u1''))) 0)"
    by (simp add: rate_check_def init_def apiLimiter_def)
  have b: "usageAndAuthMiddleware (usageTracker init) (no_query_of (Some ''u1''))
             = Next ''u1'' (Number 0)"
    by code_simp
  from missing_query_never_dispatched[OF h, of example_env init 0] a b h
  show ?thesis by simp
qed

text \<open>
  C8 as stated fails: of eleven search requests without a query that user \<open>u1\<close> sends
  within one window, the eleventh is answered with HTTP 429, not 400.
\<close>

theorem missing_query_rate_limited_first:
  "map fst (run (app_part_000 example_env) init
      (burst SearchProxy (no_query_of (Some ''u1'')) 0 11)) =
     replicate 10 (Answered \<lparr>status = 400,
        payload = ErrorJson ''Missing search query in request body''\<rparr>)
     @ [Answered \<lparr>status = 429,
        payload = ErrorJson ''Too many requests, please try again after a minute.''\<rparr>]"
  by code_simp

text \<open>
  C9. In both files the limiter's options carry the message
  "Too many requests, please try again after a minute.", enable the standard headers
  and disable the legacy ones. On every route of both files a request that the
  limiter refuses is answered with HTTP 429 and that message, and a request that the
  limiter admits, with a non-empty \<^verbatim>\<open>userId\<close> whose usage has reached
  \<open>FREE_TRIAL_LIMIT\<close>, is answered with HTTP 429 and the message "Free trial limit
  reached. Please add your own API key in the settings to continue.".
\<close>

theorem rejection_bodies:
  "message apiLimiter_server_js = ErrorJson ''Too many requests, please try again after a minute.''
   \<and> message apiLimiter = ErrorJson ''Too many requests, please try again after a minute.''
   \<and> standardHeaders apiLimiter_server_js \<and> standardHeaders apiLimiter
   \<and> \<not> legacyHeaders apiLimiter_server_js \<and> \<not> legacyHeaders apiLimiter
   \<and> (\<not> fst (rate_check apiLimiter_server_js (hits s) (userId req) now) \<longrightarrow>
        fst (gemini_proxy_server_js e s req now) = Respond \<lparr>status = 429,
          payload = ErrorJson ''Too many requests, please try again after a minute.''\<rparr>)
   \<and> (\<not> fst (rate_check apiLimiter (hits s) (userId req) now) \<longrightarrow>
        fst (gemini_proxy e s req now) = Respond \<lparr>status = 429,
          payload = ErrorJson ''Too many requests, please try again after a minute.''\<rparr>
        \<and> fst (search_proxy e s req now) = Respond \<lparr>status = 429,
          payload = ErrorJson ''Too many requests, please try again after a minute.''\<rparr>)
   \<and> (fst (rate_check apiLimiter_server_js (hits s) (userId req) now) \<and> userId req = Some u
        \<and> u \<noteq> [] \<and> ge_number (or_zero (get_prop (usageTracker s) u)) FREE_TRIAL_LIMIT \<longrightarrow>
        fst (gemini_proxy_server_js e s req now) = Respond \<lparr>status = 429, payload = ErrorJson
          ''Free trial limit reached. Please add your own API key in the settings to continue.''\<rparr>)
   \<and> (fst (rate_check apiLimiter (hits s) (userId req) now) \<and> userId req = Some u
        \<and> u \<noteq> [] \<and> ge_number (or_zero (get_prop (usageTracker s) u)) FREE_TRIAL_LIMIT \<longrightarrow>
        fst (gemini_proxy e s req now) = Respond \<lparr>status = 429, payload = ErrorJson
          ''Free trial limit reached. Please add your own API key in the settings to continue.''\<rparr>
        \<and> fst (search_proxy e s req now) = Respond \<lparr>status = 429, payload = ErrorJson
          ''Free trial limit reached. Please add your own API key in the settings to continue.''\<rparr>)"
proof -
  have opts: "message apiLimiter_server_js = ErrorJson ''Too many requests, please try again after a minute.''"
    "message apiLimiter = ErrorJson ''Too many requests, please try again after a minute.''"
    "standardHeaders apiLimiter_server_js" "standardHeaders apiLimiter"
    "\<not> legacyHeaders apiLimiter_server_js" "\<not> legacyHeaders apiLimiter"
    by (simp_all add: apiLimiter_def apiLimiter_server_js_def)
  have r5: "\<not> fst (rate_check apiLimiter_server_js (hits s) (userId req) now) \<longrightarrow>
        fst (gemini_proxy_server_js e s req now) = Respond \<lparr>status = 429,
          payload = ErrorJson ''Too many requests, please try again after a minute.''\<rparr>"
    by (simp add: server_js_route route_eq opts)
  have r10: "\<not> fst (rate_check apiLimiter (hits s) (userId req) now) \<longrightarrow>
        fst (gemini_proxy e s req now) = Respond \<lparr>status = 429,
          payload = ErrorJson ''Too many requests, please try again after a minute.''\<rparr>
        \<and> fst (search_proxy e s req now) = Respond \<lparr>status = 429,
          payload = ErrorJson ''Too many requests, please try again after a minute.''\<rparr>"
    by (simp add: gemini_proxy_def search_proxy_def route_eq opts)
  have q5: "fst (rate_check apiLimiter_server_js (hits s) (userId req) now) \<and> userId req = Some u
        \<and> u \<noteq> [] \<and> ge_number (or_zero (get_prop (usageTracker s) u)) FREE_TRIAL_LIMIT \<longrightarrow>
        fst (gemini_proxy_server_js e s req now) = Respond \<lparr>status = 429, payload = ErrorJson
          ''Free trial limit reached. Please add your own API key in the settings to continue.''\<rparr>"
    by (auto simp: server_js_route route_eq usageAndAuthMiddleware_def)
  have q10: "fst (rate_check apiLimiter (hits s) (userId req) now) \<and> userId req = Some u
        \<and> u \<noteq> [] \<and> ge_number (or_zero (get_prop (usageTracker s) u)) FREE_TRIAL_LIMIT \<longrightarrow>
        fst (gemini_proxy e s req now) = Respond \<lparr>status = 429, payload = ErrorJson
          ''Free trial limit reached. Please add your own API key in the settings to continue.''\<rparr>
        \<and> fst (search_proxy e s req now) = Respond \<lparr>status = 429, payload = ErrorJson
          ''Free trial limit reached. Please add your own API key in the settings to continue.''\<rparr>"
    by (auto simp: gemini_proxy_def search_proxy_def route_eq usageAndAuthMiddleware_def)
  from opts r5 r10 q5 q10 show ?thesis by blast
qed

text \<open>
  A refused request on either server, and an exhausted user on either server.
\<close>

theorem rejection_bodies_witness:
  "\<not> fst (rate_check apiLimiter_server_js
          (hits (exec (app_server_js example_env) init (butlast six_in_ten_seconds)))
          (userId (request_of (Some ''u2''))) 10000)
   \<and> fst (gemini_proxy_server_js example_env
          (exec (app_server_js example_env) init (butlast six_in_ten_seconds))
          (request_of (Some ''u2'')) 10000)
       = Respond \<lparr>status = 429,
           payload = ErrorJson ''Too many requests, please try again after a minute.''\<rparr>
   \<and> \<not> fst (rate_check apiLimiter
          (hits (exec (app_part_000 example_env) init (butlast eleven_in_ten_seconds)))
          (userId (request_of (Some ''u2''))) 10000)
   \<and> fst (gemini_proxy example_env
          (exec (app_part_000 example_env) init (butlast eleven_in_ten_seconds))
          (request_of (Some ''u2'')) 10000)
       = Respond \<lparr>status = 429,
           payload = ErrorJson ''Too many requests, please try again after a minute.''\<rparr>
   \<and> fst (rate_check apiLimiter_server_js
          (hits (exec (app_server_js example_env) init twenty_served_server_js))
          (userId (request_of (Some ''u1''))) 240000)
   \<and> userId (request_of (Some ''u1'')) = Some ''u1'' \<and> ''u1'' \<noteq> []
   \<and> ge_number (or_zero (get_prop
          (usageTracker (exec (app_server_js example_env) init twenty_served_server_js)) ''u1''))
        FREE_TRIAL_LIMIT
   \<and> fst (gemini_proxy_server_js example_env
          (exec (app_server_js example_env) init twenty_served_server_js)
          (request_of (Some ''u1'')) 240000)
       = Respond \<lparr>status = 429, payload = ErrorJson
          ''Free trial limit reached. Please add your own API key in the settings to continue.''\<rparr>
   \<and> fst (rate_check apiLimiter
          (hits (exec (app_part_000 example_env) init twenty_served))
          (userId (request_of (Some ''u1''))) 120000)
   \<and> ge_number (or_zero (get_prop
          (usageTracker (exec (app_part_000 example_env) init twenty_served)) ''u1''))
        FREE_TRIAL_LIMIT
   \<and> fst (search_proxy example_env
          (exec (app_part_000 example_env) init twenty_served)
          (request_of (Some ''u1'')) 120000)
       = Respond \<lparr>status = 429, payload = ErrorJson
          ''Free trial limit reached. Please add your own API key in the settings to continue.''\<rparr>"
proof -
  let ?s5 = "exec (app_server_js example_env) init (butlast six_in_ten_seconds)"
  let ?s10 = "exec (app_part_000 example_env) init (butlast eleven_in_ten_seconds)"
  let ?q5 = "exec (app_server_js example_env) init twenty_served_server_js"
  let ?q10 = "exec (app_part_000 example_env) init twenty_served"
  have r5: "\<not> fst (rate_check apiLimiter_server_js (hits ?s5) (userId (request_of (Some ''u2''))) 10000)"
    by code_simp
  have r10: "\<not> fst (rate_check apiLimiter (hits ?s10) (userId (request_of (Some ''u2''))) 10000)"
    by code_simp
  have a5: "fst (rate_check apiLimiter_server_js (hits ?q5) (userId (request_of (Some ''u1''))) 240000)"
    by code_simp
  have a10: "fst (rate_check apiLimiter (hits ?q10) (userId (request_of (Some ''u1''))) 120000)"
    by code_simp
  have u: "userId (request_of (Some ''u1'')) = Some ''u1''" "''u1'' \<noteq> []"
    by (simp_all add: request_of_def)
  have g5: "ge_number (or_zero (get_prop (usageTracker ?q5) ''u1'')) FREE_TRIAL_LIMIT"
    by code_simp
  have g10: "ge_number (or_zero (get_prop (usageTracker ?q10) ''u1'')) FREE_TRIAL_LIMIT"
    by code_simp
  note t1 = rejection_bodies[where s = ?s5 and req = "request_of (Some ''u2'')" and now = 10000
      and e = example_env]
  note t2 = rejection_bodies[where s = ?s10 and req = "request_of (Some ''u2'')" and now = 10000
      and e = example_env]
  note t3 = rejection_bodies[where s = ?q5 and req = "request_of (Some ''u1'')" and now = 240000
      and e = example_env and u = "''u1''"]
  note t4 = rejection_bodies[where s = ?q10 and req = "request_of (Some ''u1'')" and now = 120000
      and e = example_env and u = "''u1''"]
  from t1 r5 have c1: "fst (gemini_proxy_server_js example_env ?s5 (request_of (Some ''u2'')) 10000)
       = Respond \<lparr>status = 429,
           payload = ErrorJson ''Too many requests, please try again after a minute.''\<rparr>"
    by blast
  from t2 r10 have c2: "fst (gemini_proxy example_env ?s10 (request_of (Some ''u2'')) 10000)
       = Respond \<lparr>status = 429,
           payload = ErrorJson ''Too many requests, please try again after a minute.''\<rparr>"
    by blast
  from t3 a5 u g5 have c3: "fst (gemini_proxy_server_js example_env ?q5 (request_of (Some ''u1'')) 240000)
       = Respond \<lparr>status = 429, payload = ErrorJson
          ''Free trial limit reached. Please add your own API key in the settings to continue.''\<rparr>"
    by blast
  from t4 a10 u g10 have c4: "fst (search_proxy example_env ?q10 (request_of (Some ''u1'')) 120000)
       = Respond \<lparr>status = 429, payload = ErrorJson
          ''Free trial limit reached. Please add your own API key in the settings to continue.''\<rparr>"
    by blast
  from r5 r10 a5 a10 u g5 g10 c1 c2 c3 c4 show ?thesis by blast
qed

end
